theory Spec2Isabelle
  imports Main "HOL-Library.Multiset"
begin

section \<open>Time\<close>

text \<open>
  A value of Go's \<^verbatim>\<open>time.Time\<close> is an instant together with a location. The model
  keeps the instant as the number of nanoseconds since the Unix epoch, an unbounded
  integer, and of the location the offset of its zone at this instant, in seconds east of
  UTC. A \<^verbatim>\<open>time.Duration\<close> is a number of nanoseconds.
\<close>

record Time =
  unixNano :: int
  zoneOffset :: int

type_synonym Duration = int

definition Hour :: Duration where
  "Hour = 3600000000000"

text \<open>\<^verbatim>\<open>t.Add(d)\<close> moves the instant and keeps the location.\<close>

definition Add :: "Time \<Rightarrow> Duration \<Rightarrow> Time" where
  "Add t d = t\<lparr>unixNano := unixNano t + d\<rparr>"

text \<open>The zero value \<^verbatim>\<open>time.Time{}\<close>: January 1, year 1, 00:00 UTC.\<close>

definition zeroTime :: Time where
  "zeroTime = \<lparr>unixNano = - 62135596800000000000, zoneOffset = 0\<rparr>"

text \<open>
  The table library hands a \<^verbatim>\<open>time.Time\<close> to the table as the text of
  \<^verbatim>\<open>MarshalText\<close>, in the layout \<^verbatim>\<open>2006-01-02T15:04:05.999999999Z07:00\<close>: the date and
  the time of day in the zone of the value, the fraction of the second without its
  trailing zeros and left out when it is zero, and the zone as \<^verbatim>\<open>Z\<close> when the offset is
  zero and as hours and minutes otherwise. \<open>civil\<close> gives the year, the month and the
  day of the Gregorian calendar for a number of days since January 1, 1970, and
  \<open>appendInt w n\<close> the last \<open>w\<close> decimal digits of \<open>n\<close>. \<^verbatim>\<open>MarshalText\<close> refuses a
  year outside 0 to 9999; the request then fails, which is one of the faults of a request
  below.
\<close>

definition civil :: "int \<Rightarrow> int \<times> int \<times> int" where
  "civil days =
     (let z = days + 719468;
          era = z div 146097;
          doe = z - era * 146097;
          yoe = (doe - doe div 1460 + doe div 36524 - doe div 146096) div 365;
          doy = doe - (365 * yoe + yoe div 4 - yoe div 100);
          mp = (5 * doy + 2) div 153;
          d = doy - (153 * mp + 2) div 5 + 1;
          m = (if mp < 10 then mp + 3 else mp - 9);
          y = yoe + era * 400 + (if m \<le> 2 then 1 else 0)
      in (y, m, d))"

fun appendInt :: "nat \<Rightarrow> int \<Rightarrow> string" where
  "appendInt 0 n = []"
| "appendInt (Suc w) n = appendInt w (n div 10) @ [''0123456789'' ! nat (n mod 10)]"

definition fraction :: "int \<Rightarrow> string" where
  "fraction ns =
     (if ns = 0 then []
      else CHR ''.'' # rev (dropWhile (\<lambda>c. c = CHR ''0'') (rev (appendInt 9 ns))))"

definition zone :: "int \<Rightarrow> string" where
  "zone offset =
     (if offset = 0 then ''Z''
      else (let m = \<bar>offset\<bar> div 60
            in (if offset < 0 \<and> m \<noteq> 0 then ''-'' else ''+'')
               @ appendInt 2 (m div 60) @ '':'' @ appendInt 2 (m mod 60)))"

definition MarshalText :: "Time \<Rightarrow> string" where
  "MarshalText t =
     (let local = unixNano t + zoneOffset t * 1000000000;
          secs = local div 1000000000;
          ns = local mod 1000000000;
          sod = secs mod 86400;
          (y, m, d) = civil (secs div 86400)
      in appendInt 4 y @ ''-'' @ appendInt 2 m @ ''-'' @ appendInt 2 d @ ''T''
         @ appendInt 2 (sod div 3600) @ '':'' @ appendInt 2 (sod mod 3600 div 60) @ '':''
         @ appendInt 2 (sod mod 60) @ fraction ns @ zone (zoneOffset t))"

text \<open>
  The table orders two texts by their bytes, and so two times by the bytes of their texts:
  \<open>table_less a b\<close> is what the table answers to \<^verbatim>\<open>a < b\<close>.
\<close>

fun bytes_less :: "string \<Rightarrow> string \<Rightarrow> bool" where
  "bytes_less [] [] = False"
| "bytes_less [] (b # bs) = True"
| "bytes_less (a # as) [] = False"
| "bytes_less (a # as) (b # bs) =
     ((of_char a :: nat) < of_char b \<or> (a = b \<and> bytes_less as bs))"

definition table_less :: "Time \<Rightarrow> Time \<Rightarrow> bool" where
  "table_less a b = bytes_less (MarshalText a) (MarshalText b)"

section \<open>The records of the table (part\_000)\<close>

record recordBase =
  PKey :: string
  SKey :: string
  ExpiresAt :: Time
  CreatedAt :: Time

record alertEntry = recordBase +
  ReportID :: string

record alertCache =
  PKey :: string
  SKey :: string
  AlertData :: string
  ExpiresAt :: Time

record reportSectionRecord = recordBase +
  Data :: string

record attributeCache = recordBase +
  Timestamp :: Time
  AttrKey :: string
  AttrType :: string
  AttrValue :: string

text \<open>
  The types of package \<^verbatim>\<open>deepalert\<close> are declared outside the files at hand. The model
  keeps of an alert what the data store reads from it, the result of \<^verbatim>\<open>AlertID()\<close> and
  the field \<^verbatim>\<open>Timestamp\<close>, and a body that stands for the remaining fields; of an
  attribute the four fields that \<^verbatim>\<open>PutAttributeCache\<close> reads (\<^verbatim>\<open>Timestamp\<close> is a
  pointer, \<^verbatim>\<open>nil\<close> is \<open>None\<close>); of a report the three fields that \<^verbatim>\<open>TakeReport\<close>
  sets.
\<close>

record Alert =
  AlertID :: string
  Timestamp :: Time
  Body :: string

record Attribute =
  Type :: string
  Key :: string
  Value :: string
  Timestamp :: "Time option"

datatype ReportStatus = StatusNew | StatusMore

record Report =
  ID :: string
  Status :: ReportStatus
  CreatedAt :: Time

section \<open>Errors\<close>

text \<open>
  An error value is a request failure of the AWS SDK with its code, the \<^verbatim>\<open>ErrNotFound\<close>
  of the table library, some other failure, an error wrapped with a message, or the value
  of the variable \<^verbatim>\<open>errCondition\<close> of the in-memory repository, which is equal to no
  other error. A wrapped error keeps its format string and the arguments of the format,
  unrendered.
\<close>

datatype fmtarg =
  ArgS string
  | ArgAlert Alert
  | ArgRecord reportSectionRecord
  | ArgAttr Attribute

datatype error =
  RequestFailure string
  | ErrNotFound
  | Failure string
  | New string
  | Wrap error string
  | Wrapf error string "fmtarg list"
  | With error string string
  | errCondition

fun isConditionalCheckErr :: "error \<Rightarrow> bool" where
  "isConditionalCheckErr (RequestFailure code) = (code = ''ConditionalCheckFailedException'')"
| "isConditionalCheckErr _ = False"

section \<open>The table\<close>

text \<open>
  The table is the keyed store behind \<^verbatim>\<open>x.table\<close>: items with a partition key \<^verbatim>\<open>pk\<close>
  and a sort key \<^verbatim>\<open>sk\<close>, at most one item for each pair. An item is one of the four
  records above; it is read by attribute name, and an attribute that an item does not
  have reads as the zero value of its type.
\<close>

datatype item =
  AlertEntryItem alertEntry
  | AlertCacheItem alertCache
  | ReportSectionItem reportSectionRecord
  | AttributeCacheItem attributeCache

fun item_pk :: "item \<Rightarrow> string" where
  "item_pk (AlertEntryItem e) = recordBase.PKey e"
| "item_pk (AlertCacheItem c) = alertCache.PKey c"
| "item_pk (ReportSectionItem r) = recordBase.PKey r"
| "item_pk (AttributeCacheItem a) = recordBase.PKey a"

fun item_sk :: "item \<Rightarrow> string" where
  "item_sk (AlertEntryItem e) = recordBase.SKey e"
| "item_sk (AlertCacheItem c) = alertCache.SKey c"
| "item_sk (ReportSectionItem r) = recordBase.SKey r"
| "item_sk (AttributeCacheItem a) = recordBase.SKey a"

fun item_expires_at :: "item \<Rightarrow> Time" where
  "item_expires_at (AlertEntryItem e) = recordBase.ExpiresAt e"
| "item_expires_at (AlertCacheItem c) = alertCache.ExpiresAt c"
| "item_expires_at (ReportSectionItem r) = recordBase.ExpiresAt r"
| "item_expires_at (AttributeCacheItem a) = recordBase.ExpiresAt a"

fun item_created_at :: "item \<Rightarrow> Time" where
  "item_created_at (AlertEntryItem e) = recordBase.CreatedAt e"
| "item_created_at (AlertCacheItem c) = zeroTime"
| "item_created_at (ReportSectionItem r) = recordBase.CreatedAt r"
| "item_created_at (AttributeCacheItem a) = recordBase.CreatedAt a"

fun item_report_id :: "item \<Rightarrow> string" where
  "item_report_id (AlertEntryItem e) = ReportID e"
| "item_report_id _ = []"

fun item_alert_data :: "item \<Rightarrow> string" where
  "item_alert_data (AlertCacheItem c) = AlertData c"
| "item_alert_data _ = []"

fun item_data :: "item \<Rightarrow> string" where
  "item_data (ReportSectionItem r) = Data r"
| "item_data _ = []"

definition as_alertEntry :: "item \<Rightarrow> alertEntry" where
  "as_alertEntry w =
     \<lparr>recordBase.PKey = item_pk w, recordBase.SKey = item_sk w,
      recordBase.ExpiresAt = item_expires_at w, recordBase.CreatedAt = item_created_at w,
      ReportID = item_report_id w\<rparr>"

definition as_alertCache :: "item \<Rightarrow> alertCache" where
  "as_alertCache w =
     \<lparr>alertCache.PKey = item_pk w, alertCache.SKey = item_sk w,
      AlertData = item_alert_data w, alertCache.ExpiresAt = item_expires_at w\<rparr>"

definition as_reportSectionRecord :: "item \<Rightarrow> reportSectionRecord" where
  "as_reportSectionRecord w =
     \<lparr>recordBase.PKey = item_pk w, recordBase.SKey = item_sk w,
      recordBase.ExpiresAt = item_expires_at w, recordBase.CreatedAt = item_created_at w,
      Data = item_data w\<rparr>"

type_synonym table = "item list"

definition key_of :: "item \<Rightarrow> string \<times> string" where
  "key_of w = (item_pk w, item_sk w)"

definition table_get :: "string \<Rightarrow> string \<Rightarrow> table \<Rightarrow> item option" where
  "table_get pk sk t = find (\<lambda>w. key_of w = (pk, sk)) t"

text \<open>The items of a partition come back in the order of their sort keys, by bytes.\<close>

fun insert_by_sk :: "item \<Rightarrow> item list \<Rightarrow> item list" where
  "insert_by_sk v [] = [v]"
| "insert_by_sk v (w # ws) =
     (if bytes_less (item_sk w) (item_sk v) then w # insert_by_sk v ws else v # w # ws)"

definition sort_by_sk :: "item list \<Rightarrow> item list" where
  "sort_by_sk ws = foldr insert_by_sk ws []"

definition table_all :: "string \<Rightarrow> table \<Rightarrow> item list" where
  "table_all pk t = sort_by_sk (filter (\<lambda>w. item_pk w = pk) t)"

fun table_put :: "item \<Rightarrow> table \<Rightarrow> table" where
  "table_put v [] = [v]"
| "table_put v (w # t) = (if key_of w = key_of v then v # t else w # table_put v t)"

definition wf_table :: "table \<Rightarrow> bool" where
  "wf_table t = distinct (map key_of t)"

text \<open>
  The condition of the two conditional writes,
  \<^verbatim>\<open>(attribute_not_exists(pk) AND attribute_not_exists(sk)) OR expires_at < ?\<close>,
  evaluated on the item stored under the key of the write, if there is one. The stored
  \<^verbatim>\<open>expires_at\<close> and the operand are both texts of times, which the table compares.
\<close>

fun cond_not_exists_or_expired :: "item option \<Rightarrow> Time \<Rightarrow> bool" where
  "cond_not_exists_or_expired None ts = True"
| "cond_not_exists_or_expired (Some w) ts = table_less (item_expires_at w) ts"

text \<open>
  Every request to the table can fail for a reason of its own (the argument \<open>fault\<close>,
  chosen by the environment: the network, the service, or the encoder of the request); a
  request that fails leaves the table as it is. A
  conditional write whose condition is false fails with the request failure
  \<^verbatim>\<open>ConditionalCheckFailedException\<close>.
\<close>

definition Put_If :: "error option \<Rightarrow> item \<Rightarrow> Time \<Rightarrow> table \<Rightarrow> error option \<times> table" where
  "Put_If fault v ts t =
     (case fault of
        Some err \<Rightarrow> (Some err, t)
      | None \<Rightarrow>
          if cond_not_exists_or_expired (table_get (item_pk v) (item_sk v) t) ts
          then (None, table_put v t)
          else (Some (RequestFailure ''ConditionalCheckFailedException''), t))"

definition Put :: "error option \<Rightarrow> item \<Rightarrow> table \<Rightarrow> error option \<times> table" where
  "Put fault v t =
     (case fault of
        Some err \<Rightarrow> (Some err, t)
      | None \<Rightarrow> (None, table_put v t))"

definition Get_One :: "error option \<Rightarrow> string \<Rightarrow> string \<Rightarrow> table \<Rightarrow> error + item" where
  "Get_One fault pk sk t =
     (case fault of
        Some err \<Rightarrow> Inl err
      | None \<Rightarrow> (case table_get pk sk t of None \<Rightarrow> Inl ErrNotFound | Some w \<Rightarrow> Inr w))"

definition Get_All :: "error option \<Rightarrow> string \<Rightarrow> table \<Rightarrow> error + item list" where
  "Get_All fault pk t =
     (case fault of
        Some err \<Rightarrow> Inl err
      | None \<Rightarrow> Inr (table_all pk t))"

section \<open>The correlation map: TakeReport\<close>

text \<open>
  \<^verbatim>\<open>TakeReport\<close> reads the clock (\<open>now\<close>, the value of \<^verbatim>\<open>time.Now().UTC()\<close>) and draws
  a report identity (\<open>newID\<close>, the result of \<^verbatim>\<open>NewReportID()\<close>); \<open>putFault\<close> and \<open>getFault\<close> are the faults of its two
  requests. It returns the report or the error, and the table after the call.
\<close>

definition TakeReport ::
  "Time \<Rightarrow> string \<Rightarrow> error option \<Rightarrow> error option \<Rightarrow> Alert \<Rightarrow> table \<Rightarrow> (error + Report) \<times> table" where
  "TakeReport now newID putFault getFault alert t =
     (let fixedKey = ''Fixed'';
          alertID = AlertID alert;
          ts = Alert.Timestamp alert;
          cache = \<lparr>recordBase.PKey = ''alertmap/'' @ alertID, recordBase.SKey = fixedKey,
                   recordBase.ExpiresAt = Add ts (Hour * 3), recordBase.CreatedAt = now,
                   ReportID = newID\<rparr>
      in case Put_If putFault (AlertEntryItem cache) ts t of
           (Some err, t') \<Rightarrow>
             if isConditionalCheckErr err then
               (case Get_One getFault (recordBase.PKey cache) (recordBase.SKey cache) t' of
                  Inl err' \<Rightarrow>
                    (Inl (Wrapf err' ''Fail to get cached reportID, AlertID=%s'' [ArgS alertID]), t')
                | Inr w \<Rightarrow>
                    (let existedEntry = as_alertEntry w
                     in (Inr \<lparr>ID = ReportID existedEntry, Status = StatusMore,
                              Report.CreatedAt = recordBase.CreatedAt existedEntry\<rparr>, t')))
             else (Inl (Wrapf err ''Fail to get cached reportID, AlertID=%s'' [ArgS alertID]), t')
         | (None, t') \<Rightarrow>
             (Inr \<lparr>ID = ReportID cache, Status = StatusNew, Report.CreatedAt = now\<rparr>, t'))"

text \<open>
  The two requests of \<^verbatim>\<open>TakeReport\<close>, one at a time: the table serves each request as
  a whole, and between the conditional write of a call and its read the requests of other
  calls can be served. A call is \<open>Idle\<close> before its conditional write, \<open>Rejected\<close> between a
  rejected write and the read that follows, and \<open>Done\<close> with what it returns.
\<close>

record take_call =
  call_now :: Time
  call_newID :: string
  call_putFault :: "error option"
  call_getFault :: "error option"
  call_alert :: Alert

datatype take_pc = Idle | Rejected | Done "error + Report"

definition TakeReport_step :: "take_call \<Rightarrow> take_pc \<Rightarrow> table \<Rightarrow> take_pc \<times> table" where
  "TakeReport_step c pc t =
     (let fixedKey = ''Fixed'';
          alertID = AlertID (call_alert c);
          ts = Alert.Timestamp (call_alert c);
          now = call_now c;
          cache = \<lparr>recordBase.PKey = ''alertmap/'' @ alertID, recordBase.SKey = fixedKey,
                   recordBase.ExpiresAt = Add ts (Hour * 3), recordBase.CreatedAt = now,
                   ReportID = call_newID c\<rparr>
      in case pc of
           Idle \<Rightarrow>
             (case Put_If (call_putFault c) (AlertEntryItem cache) ts t of
                (Some err, t') \<Rightarrow>
                  if isConditionalCheckErr err then (Rejected, t')
                  else (Done (Inl (Wrapf err ''Fail to get cached reportID, AlertID=%s''
                                     [ArgS alertID])), t')
              | (None, t') \<Rightarrow>
                  (Done (Inr \<lparr>ID = ReportID cache, Status = StatusNew,
                              Report.CreatedAt = now\<rparr>), t'))
         | Rejected \<Rightarrow>
             (case Get_One (call_getFault c) (recordBase.PKey cache) (recordBase.SKey cache) t of
                Inl err' \<Rightarrow>
                  (Done (Inl (Wrapf err' ''Fail to get cached reportID, AlertID=%s''
                                [ArgS alertID])), t)
              | Inr w \<Rightarrow>
                  (let existedEntry = as_alertEntry w
                   in (Done (Inr \<lparr>ID = ReportID existedEntry, Status = StatusMore,
                                  Report.CreatedAt = recordBase.CreatedAt existedEntry\<rparr>), t)))
         | Done r \<Rightarrow> (Done r, t))"

text \<open>
  Concurrent calls: \<open>cs\<close> are the calls, \<open>pcs\<close> where each of them stands, and a schedule
  names, request after request, the call whose next request the table serves.
\<close>

fun run_schedule :: "take_call list \<Rightarrow> nat list \<Rightarrow> take_pc list \<times> table \<Rightarrow> take_pc list \<times> table" where
  "run_schedule cs [] s = s"
| "run_schedule cs (i # sched) (pcs, t) =
     (if i < length pcs \<and> i < length cs
      then (let (pc', t') = TakeReport_step (cs ! i) (pcs ! i) t
            in run_schedule cs sched (pcs[i := pc'], t'))
      else run_schedule cs sched (pcs, t))"

text \<open>A sequence of calls of \<^verbatim>\<open>TakeReport\<close>, one after the other.\<close>

fun TakeReports :: "take_call list \<Rightarrow> table \<Rightarrow> table" where
  "TakeReports [] t = t"
| "TakeReports (c # cs) t =
     TakeReports cs
       (snd (TakeReport (call_now c) (call_newID c) (call_putFault c) (call_getFault c)
               (call_alert c) t))"

definition is_alertmap :: "string \<Rightarrow> bool" where
  "is_alertmap pk = (take 9 pk = ''alertmap/'')"

definition alertmap_fixed :: "table \<Rightarrow> bool" where
  "alertmap_fixed t = list_all (\<lambda>w. \<not> is_alertmap (item_pk w) \<or> item_sk w = ''Fixed'') t"

section \<open>The alert log: SaveAlertCache and FetchAlertCache\<close>

record DataStoreService =
  tableName :: string
  region :: string
  timeToLive :: Duration

definition NewDataStoreService :: "string \<Rightarrow> string \<Rightarrow> DataStoreService" where
  "NewDataStoreService tn rg = \<lparr>tableName = tn, region = rg, timeToLive = Hour * 3\<rparr>"

text \<open>\<open>uuid\<close> is the result of \<^verbatim>\<open>uuid.New().String()\<close>.\<close>

definition toAlertCacheKey :: "string \<Rightarrow> string \<Rightarrow> string \<times> string" where
  "toAlertCacheKey uuid reportID = (''alert/'' @ reportID, ''cache/'' @ uuid)"

text \<open>
  \<^verbatim>\<open>json.Marshal\<close> and \<^verbatim>\<open>json.Unmarshal\<close> are parameters (\<open>Marshal\<close>, \<open>Unmarshal\<close>); a
  byte slice is a string.
\<close>

definition SaveAlertCache ::
  "(Alert \<Rightarrow> error + string) \<Rightarrow> DataStoreService \<Rightarrow> string \<Rightarrow> error option \<Rightarrow> string \<Rightarrow> Alert
     \<Rightarrow> table \<Rightarrow> error option \<times> table" where
  "SaveAlertCache Marshal x uuid putFault reportID alert t =
     (case Marshal alert of
        Inl err \<Rightarrow> (Some (Wrapf err ''Fail to marshal alert: %v'' [ArgAlert alert]), t)
      | Inr raw \<Rightarrow>
          (let (pk, sk) = toAlertCacheKey uuid reportID;
               cache = \<lparr>alertCache.PKey = pk, alertCache.SKey = sk, AlertData = raw,
                        alertCache.ExpiresAt = Add (Alert.Timestamp alert) (timeToLive x)\<rparr>
           in case Put putFault (AlertCacheItem cache) t of
                (Some err, t') \<Rightarrow> (Some (Wrap err []), t')
              | (None, t') \<Rightarrow> (None, t')))"

fun FetchAlertCache_loop ::
  "(string \<Rightarrow> error + Alert) \<Rightarrow> alertCache list \<Rightarrow> Alert list \<Rightarrow> error + Alert list" where
  "FetchAlertCache_loop Unmarshal [] alerts = Inr alerts"
| "FetchAlertCache_loop Unmarshal (cache # caches) alerts =
     (case Unmarshal (AlertData cache) of
        Inl err \<Rightarrow> Inl (Wrapf err ''Fail to unmarshal alert: %s'' [ArgS (AlertData cache)])
      | Inr alert \<Rightarrow> FetchAlertCache_loop Unmarshal caches (alerts @ [alert]))"

definition FetchAlertCache ::
  "(string \<Rightarrow> error + Alert) \<Rightarrow> string \<Rightarrow> error option \<Rightarrow> string \<Rightarrow> table \<Rightarrow> error + Alert list" where
  "FetchAlertCache Unmarshal uuid getFault reportID t =
     (let pk = fst (toAlertCacheKey uuid reportID)
      in case Get_All getFault pk t of
           Inl err \<Rightarrow> Inl (Wrapf err ''Fail to retrieve alertCache: %s'' [ArgS reportID])
         | Inr ws \<Rightarrow> FetchAlertCache_loop Unmarshal (map as_alertCache ws) [])"

text \<open>A sequence of appends, one after the other, with the error of each.\<close>

fun SaveAlertCaches ::
  "(Alert \<Rightarrow> error + string) \<Rightarrow> DataStoreService \<Rightarrow> string
     \<Rightarrow> (string \<times> error option \<times> Alert) list \<Rightarrow> table \<Rightarrow> error option list \<times> table" where
  "SaveAlertCaches Marshal x reportID [] t = ([], t)"
| "SaveAlertCaches Marshal x reportID ((uuid, putFault, alert) # cs) t =
     (let (r, t') = SaveAlertCache Marshal x uuid putFault reportID alert t;
          (rs, t'') = SaveAlertCaches Marshal x reportID cs t'
      in (r # rs, t''))"

text \<open>The item that a successful append of the sequence stores.\<close>

definition stored_cache ::
  "(Alert \<Rightarrow> error + string) \<Rightarrow> DataStoreService \<Rightarrow> string
     \<Rightarrow> string \<times> error option \<times> Alert \<Rightarrow> item" where
  "stored_cache Marshal x reportID c =
     AlertCacheItem
       \<lparr>alertCache.PKey = ''alert/'' @ reportID, alertCache.SKey = ''cache/'' @ fst c,
        AlertData = (case Marshal (snd (snd c)) of Inr raw \<Rightarrow> raw | Inl err \<Rightarrow> []),
        alertCache.ExpiresAt = Add (Alert.Timestamp (snd (snd c))) (timeToLive x)\<rparr>"

section \<open>The section log: FetchReportSection\<close>

text \<open>
  \<^verbatim>\<open>toReportSectionRecord\<close> reads of its section, when it is not \<^verbatim>\<open>nil\<close>, the hash of the
  attribute only: the argument \<open>section\<close> is this hash, \<open>None\<close> for \<^verbatim>\<open>nil\<close>. The type of
  a decoded section is left open.
\<close>

definition toReportSectionRecord :: "string \<Rightarrow> string \<Rightarrow> string option \<Rightarrow> string \<times> string" where
  "toReportSectionRecord uuid reportID section =
     (let pk = ''content/'' @ reportID;
          sk = (case section of None \<Rightarrow> [] | Some h \<Rightarrow> h @ ''/'' @ uuid)
      in (pk, sk))"

fun FetchReportSection_loop ::
  "(string \<Rightarrow> error + 's) \<Rightarrow> reportSectionRecord list \<Rightarrow> 's list \<Rightarrow> error + 's list" where
  "FetchReportSection_loop Unmarshal [] sections = Inr sections"
| "FetchReportSection_loop Unmarshal (record # records) sections =
     (case Unmarshal (Data record) of
        Inl err \<Rightarrow> Inl (Wrapf err ''Fail to unmarshal report content: %v %s''
                          [ArgRecord record, ArgS (Data record)])
      | Inr section \<Rightarrow> FetchReportSection_loop Unmarshal records (sections @ [section]))"

definition FetchReportSection ::
  "(string \<Rightarrow> error + 's) \<Rightarrow> string \<Rightarrow> error option \<Rightarrow> string \<Rightarrow> table \<Rightarrow> error + 's list" where
  "FetchReportSection Unmarshal uuid getFault reportID t =
     (let pk = fst (toReportSectionRecord uuid reportID None)
      in case Get_All getFault pk t of
           Inl err \<Rightarrow> Inl (Wrap err ''Fail to fetch report records'')
         | Inr ws \<Rightarrow> FetchReportSection_loop Unmarshal (map as_reportSectionRecord ws) [])"

section \<open>The attribute gate: PutAttributeCache\<close>

text \<open>
  Modelled from the spec: the method \<^verbatim>\<open>Hash\<close> of \<^verbatim>\<open>deepalert.Attribute\<close> is not among
  the source files. The spec, 4.2: ``Compute the attribute hash deterministically from its
  key, type, and value (observation time is excluded from the hash so that the same
  attribute observed at different times still dedups).'' The digest of the three fields is
  a parameter.
\<close>

definition Hash :: "(string \<Rightarrow> string \<Rightarrow> string \<Rightarrow> string) \<Rightarrow> Attribute \<Rightarrow> string" where
  "Hash digest attr = digest (Key attr) (Type attr) (Value attr)"

text \<open>
  \<^verbatim>\<open>PutAttributeCache\<close> does not set \<^verbatim>\<open>CreatedAt\<close>, which keeps its zero value; \<open>now\<close>
  is the value of \<^verbatim>\<open>time.Now().UTC()\<close>. The result is the pair that the function returns,
  and the table after the call.
\<close>

definition PutAttributeCache ::
  "(string \<Rightarrow> string \<Rightarrow> string \<Rightarrow> string) \<Rightarrow> Time \<Rightarrow> error option \<Rightarrow> string \<Rightarrow> Attribute \<Rightarrow> table
     \<Rightarrow> (bool \<times> error option) \<times> table" where
  "PutAttributeCache digest now putFault reportID attr t =
     (let ts = (case Attribute.Timestamp attr of Some p \<Rightarrow> p | None \<Rightarrow> now);
          cache = \<lparr>recordBase.PKey = ''attribute/'' @ reportID,
                   recordBase.SKey = Hash digest attr,
                   recordBase.ExpiresAt = Add now (Hour * 3),
                   recordBase.CreatedAt = zeroTime,
                   attributeCache.Timestamp = ts,
                   AttrKey = Key attr,
                   AttrType = Type attr,
                   AttrValue = Value attr\<rparr>
      in case Put_If putFault (AttributeCacheItem cache) now t of
           (Some err, t') \<Rightarrow>
             if isConditionalCheckErr err then ((False, None), t')
             else ((False, Some (Wrapf err ''Fail to put attr cache reportID=%s, %v''
                                   [ArgS reportID, ArgAttr attr])), t')
         | (None, t') \<Rightarrow> ((True, None), t'))"

text \<open>
  A sequence of calls for one report, in the order in which the table serves their
  requests: a call makes one request, so that concurrent calls are served in some order.
\<close>

fun PutAttributeCaches ::
  "(string \<Rightarrow> string \<Rightarrow> string \<Rightarrow> string) \<Rightarrow> string \<Rightarrow> (Time \<times> error option \<times> Attribute) list
     \<Rightarrow> table \<Rightarrow> (bool \<times> error option) list \<times> table" where
  "PutAttributeCaches digest reportID [] t = ([], t)"
| "PutAttributeCaches digest reportID ((now, putFault, attr) # cs) t =
     (let (r, t') = PutAttributeCache digest now putFault reportID attr t;
          (rs, t'') = PutAttributeCaches digest reportID cs t'
      in (r # rs, t''))"

section \<open>The in-memory repository (part\_001)\<close>

text \<open>
  The repository keeps a map from partition keys to maps from sort keys to values. The
  records of package \<^verbatim>\<open>models\<close> are declared outside the files at hand; they are taken to
  be the records above. Their \<^verbatim>\<open>ExpiresAt\<close> is a number of seconds since the Unix epoch,
  which \<^verbatim>\<open>PutAlertEntry\<close> compares with the seconds of the timestamp of the write: in
  the model, the seconds of the time that the field holds.
\<close>

type_synonym Repository_data = "string \<rightharpoonup> (string \<rightharpoonup> item)"

definition Unix :: "Time \<Rightarrow> int" where
  "Unix t = unixNano t div 1000000000"

definition mock_put :: "string \<Rightarrow> string \<Rightarrow> item \<Rightarrow> Repository_data \<Rightarrow> Repository_data" where
  "mock_put pk sk v data =
     (let m = (case data pk of None \<Rightarrow> Map.empty | Some m \<Rightarrow> m)
      in data(pk \<mapsto> m(sk \<mapsto> v)))"

definition mock_get :: "string \<Rightarrow> string \<Rightarrow> Repository_data \<Rightarrow> item option" where
  "mock_get pk sk data = (case data pk of None \<Rightarrow> None | Some m \<Rightarrow> m sk)"

definition mock_PutAlertEntry ::
  "alertEntry \<Rightarrow> Time \<Rightarrow> Repository_data \<Rightarrow> error option \<times> Repository_data" where
  "mock_PutAlertEntry entry ts data =
     (let v = mock_get (recordBase.PKey entry) (recordBase.SKey entry) data
      in if (case v of
               Some (AlertEntryItem e) \<Rightarrow> Unix ts \<le> Unix (recordBase.ExpiresAt e)
             | _ \<Rightarrow> False)
         then (Some errCondition, data)
         else (None, mock_put (recordBase.PKey entry) (recordBase.SKey entry)
                       (AlertEntryItem entry) data))"

definition mock_GetAlertEntry :: "string \<Rightarrow> string \<Rightarrow> Repository_data \<Rightarrow> alertEntry option" where
  "mock_GetAlertEntry pk sk data =
     (case mock_get pk sk data of Some (AlertEntryItem d) \<Rightarrow> Some d | _ \<Rightarrow> None)"

definition mock_PutAttributeCache ::
  "attributeCache \<Rightarrow> Time \<Rightarrow> Repository_data \<Rightarrow> error option \<times> Repository_data" where
  "mock_PutAttributeCache attr ts data =
     (let v = mock_get (recordBase.PKey attr) (recordBase.SKey attr) data
      in if (case v of
               Some (AttributeCacheItem e) \<Rightarrow> Unix ts \<le> Unix (recordBase.ExpiresAt e)
             | _ \<Rightarrow> False)
         then (Some errCondition, data)
         else (None, mock_put (recordBase.PKey attr) (recordBase.SKey attr)
                       (AttributeCacheItem attr) data))"

definition mock_IsConditionalCheckErr :: "error \<Rightarrow> bool" where
  "mock_IsConditionalCheckErr err = (err = errCondition)"

section \<open>The workflow trigger: SFnService.Exec (internal/service/sfn.go)\<close>

text \<open>\<^verbatim>\<open>strings.Split\<close> with a separator of one byte.\<close>

fun Split :: "string \<Rightarrow> char \<Rightarrow> string list" where
  "Split [] sep = ['''']"
| "Split (c # s) sep =
     (if c = sep then [] # Split s sep
      else (case Split s sep of [] \<Rightarrow> [c # ''''] | p # ps \<Rightarrow> (c # p) # ps))"

definition extractSFnRegion :: "string \<Rightarrow> error + string" where
  "extractSFnRegion arn =
     (let arnParts = Split arn CHR '':''
      in if length arnParts \<noteq> 7
         then Inl (With (New ''Invalid state machine ARN'') ''ARN'' arn)
         else Inr (arnParts ! 3))"

text \<open>
  \<^verbatim>\<open>Exec\<close> returns an error or \<^verbatim>\<open>nil\<close>, or panics when the session cannot be made
  (\<^verbatim>\<open>session.Must\<close>). The model returns with it the calls of \<^verbatim>\<open>StartExecution\<close> that were
  made, each with the region of its client and its input. \<open>Marshal\<close> is \<^verbatim>\<open>json.Marshal\<close>,
  \<open>sessionFault\<close> the error of \<^verbatim>\<open>session.NewSession\<close> and \<open>sfnFault\<close> the error of
  \<^verbatim>\<open>StartExecution\<close>, if any.
\<close>

record StartExecutionCall =
  Region :: string
  Input :: string
  StateMachineArn :: string

datatype exec_result = Return "error option" | Panic error

definition Exec ::
  "('d \<Rightarrow> error + string) \<Rightarrow> error option \<Rightarrow> error option \<Rightarrow> string \<Rightarrow> 'd
     \<Rightarrow> exec_result \<times> StartExecutionCall list" where
  "Exec Marshal sessionFault sfnFault arn data =
     (case Marshal data of
        Inl err \<Rightarrow> (Return (Some (Wrap err ''Fail to marshal report data'')), [])
      | Inr raw \<Rightarrow>
          (case extractSFnRegion arn of
             Inl daErr \<Rightarrow> (Return (Some daErr), [])
           | Inr region' \<Rightarrow>
               (case sessionFault of
                  Some err \<Rightarrow> (Panic err, [])
                | None \<Rightarrow>
                    (let input = \<lparr>Region = region', Input = raw, StateMachineArn = arn\<rparr>
                     in case sfnFault of
                          Some err \<Rightarrow>
                            (Return (Some (With (With (Wrap err ''Fail to execute state machine'')
                                                  ''arn'' arn) ''data'' raw)), [input])
                        | None \<Rightarrow> (Return None, [input])))))"

section \<open>Properties of the table\<close>

lemma table_get_put_same: "table_get (item_pk v) (item_sk v) (table_put v t) = Some v"
  by (induction t) (simp_all add: table_get_def key_of_def)

lemma table_get_put_other:
  "(pk, sk) \<noteq> key_of v \<Longrightarrow> table_get pk sk (table_put v t) = table_get pk sk t"
  by (induction t) (auto simp: table_get_def)



text \<open>
  The texts of some times, and the order of the table on them: a fraction of a second or
  a zone offset in one of two texts decides the order against the instants.
\<close>

lemma MarshalText_examples:
  "MarshalText zeroTime = ''0001-01-01T00:00:00Z''"
  "MarshalText \<lparr>unixNano = 951782400000000000, zoneOffset = 0\<rparr> = ''2000-02-29T00:00:00Z''"
  "MarshalText \<lparr>unixNano = 1600000000000000000, zoneOffset = - 19800\<rparr>
     = ''2020-09-13T06:56:40-05:30''"
  "MarshalText \<lparr>unixNano = 13 * Hour + 1, zoneOffset = 0\<rparr>
     = ''1970-01-01T13:00:00.000000001Z''"
  "MarshalText \<lparr>unixNano = 4 * Hour, zoneOffset = 32400\<rparr> = ''1970-01-01T13:00:00+09:00''"
  by code_simp+

lemma table_less_examples:
  "\<not> table_less \<lparr>unixNano = 13 * Hour, zoneOffset = 0\<rparr>
                 \<lparr>unixNano = 13 * Hour + 1, zoneOffset = 0\<rparr>"
  "table_less \<lparr>unixNano = 13 * Hour + 500000000, zoneOffset = 0\<rparr>
              \<lparr>unixNano = 13 * Hour, zoneOffset = 0\<rparr>"
  "\<not> table_less \<lparr>unixNano = 4 * Hour, zoneOffset = 32400\<rparr>
                 \<lparr>unixNano = 5 * Hour, zoneOffset = 0\<rparr>"
  "table_less \<lparr>unixNano = 13 * Hour, zoneOffset = 0\<rparr>
              \<lparr>unixNano = 11 * Hour, zoneOffset = 32400\<rparr>"
  "table_less \<lparr>unixNano = 13 * Hour, zoneOffset = 0\<rparr>
              \<lparr>unixNano = 13 * Hour + 1000000000, zoneOffset = 0\<rparr>"
  by code_simp+

lemma mset_insert_by_sk: "mset (insert_by_sk v ws) = add_mset v (mset ws)"
  by (induction ws) simp_all

lemma mset_sort_by_sk: "mset (sort_by_sk ws) = mset ws"
  by (induction ws) (simp_all add: sort_by_sk_def mset_insert_by_sk)

lemma set_sort_by_sk: "set (sort_by_sk ws) = set ws"
  using mset_sort_by_sk [of ws] by (metis set_mset_mset)

lemma length_sort_by_sk: "length (sort_by_sk ws) = length ws"
  using mset_sort_by_sk [of ws] by (metis size_mset)

lemma set_table_all: "set (table_all pk t) = {w \<in> set t. item_pk w = pk}"
  by (simp add: table_all_def set_sort_by_sk)

lemma mset_table_all: "mset (table_all pk t) = filter_mset (\<lambda>w. item_pk w = pk) (mset t)"
  by (simp add: table_all_def mset_sort_by_sk)

lemma length_table_all: "length (table_all pk t) = length (filter (\<lambda>w. item_pk w = pk) t)"
  by (simp add: table_all_def length_sort_by_sk)

lemma table_all_Nil_iff: "table_all pk t = [] \<longleftrightarrow> (\<forall>w \<in> set t. item_pk w \<noteq> pk)"
  using set_table_all [of pk t] by (auto simp: filter_empty_conv simp flip: set_empty)

lemma Put_If_accepted:
  "Put_If putFault v ts t = (None, t') \<Longrightarrow>
     putFault = None \<and> t' = table_put v t
     \<and> cond_not_exists_or_expired (table_get (item_pk v) (item_sk v) t) ts"
  by (cases putFault) (auto simp: Put_If_def split: if_splits)

lemma Put_If_failed: "Put_If putFault v ts t = (Some err, t') \<Longrightarrow> t' = t"
  by (cases putFault) (auto simp: Put_If_def split: if_splits)

section \<open>Properties of TakeReport\<close>

text \<open>
  C2, as amended. \<^verbatim>\<open>TakeReport\<close> returns one of two triples, by the outcome of its
  conditional write. When the write is accepted, it returns the report identity drawn for
  this call, the status \<^verbatim>\<open>NEW\<close>, and as \<^verbatim>\<open>CreatedAt\<close> the time of the clock at the call,
  \<open>now\<close>, which is also what the entry then stored under the key of the alert holds; the
  event timestamp sets the expiry only. When the write is rejected by its condition and the
  read that follows finds an entry, it returns the report identity of this entry, the
  status \<^verbatim>\<open>MORE\<close> and its \<^verbatim>\<open>CreatedAt\<close>, and the table is as before: the identity drawn
  for this call is stored nowhere.
\<close>

theorem TakeReport_contract:
  "(Put_If putFault
      (AlertEntryItem
         \<lparr>recordBase.PKey = ''alertmap/'' @ AlertID alert, recordBase.SKey = ''Fixed'',
          recordBase.ExpiresAt = Add (Alert.Timestamp alert) (Hour * 3),
          recordBase.CreatedAt = now, ReportID = newID\<rparr>)
      (Alert.Timestamp alert) t = (None, t') \<longrightarrow>
     TakeReport now newID putFault getFault alert t =
       (Inr \<lparr>ID = newID, Status = StatusNew, Report.CreatedAt = now\<rparr>, t')
     \<and> table_get (''alertmap/'' @ AlertID alert) ''Fixed'' t' =
         Some (AlertEntryItem
           \<lparr>recordBase.PKey = ''alertmap/'' @ AlertID alert, recordBase.SKey = ''Fixed'',
            recordBase.ExpiresAt = Add (Alert.Timestamp alert) (Hour * 3),
            recordBase.CreatedAt = now, ReportID = newID\<rparr>))
   \<and> (Put_If putFault
        (AlertEntryItem
           \<lparr>recordBase.PKey = ''alertmap/'' @ AlertID alert, recordBase.SKey = ''Fixed'',
            recordBase.ExpiresAt = Add (Alert.Timestamp alert) (Hour * 3),
            recordBase.CreatedAt = now, ReportID = newID\<rparr>)
        (Alert.Timestamp alert) t = (Some err, t') \<and>
      isConditionalCheckErr err \<and>
      Get_One getFault (''alertmap/'' @ AlertID alert) ''Fixed'' t = Inr w \<longrightarrow>
     TakeReport now newID putFault getFault alert t =
       (Inr \<lparr>ID = ReportID (as_alertEntry w), Status = StatusMore,
             Report.CreatedAt = recordBase.CreatedAt (as_alertEntry w)\<rparr>, t)
     \<and> t' = t)"
proof (intro conjI impI)
  let ?e = "AlertEntryItem
         \<lparr>recordBase.PKey = ''alertmap/'' @ AlertID alert, recordBase.SKey = ''Fixed'',
          recordBase.ExpiresAt = Add (Alert.Timestamp alert) (Hour * 3),
          recordBase.CreatedAt = now, ReportID = newID\<rparr>"
  assume ok: "Put_If putFault ?e (Alert.Timestamp alert) t = (None, t')"
  then show "TakeReport now newID putFault getFault alert t =
       (Inr \<lparr>ID = newID, Status = StatusNew, Report.CreatedAt = now\<rparr>, t')"
    by (simp add: TakeReport_def Let_def)
  from Put_If_accepted [OF ok] have "t' = table_put ?e t"
    by simp
  moreover have "table_get (item_pk ?e) (item_sk ?e) (table_put ?e t) = Some ?e"
    by (rule table_get_put_same)
  ultimately show "table_get (''alertmap/'' @ AlertID alert) ''Fixed'' t' = Some ?e"
    by simp
next
  let ?e = "AlertEntryItem
         \<lparr>recordBase.PKey = ''alertmap/'' @ AlertID alert, recordBase.SKey = ''Fixed'',
          recordBase.ExpiresAt = Add (Alert.Timestamp alert) (Hour * 3),
          recordBase.CreatedAt = now, ReportID = newID\<rparr>"
  assume rej: "Put_If putFault ?e (Alert.Timestamp alert) t = (Some err, t') \<and>
      isConditionalCheckErr err \<and>
      Get_One getFault (''alertmap/'' @ AlertID alert) ''Fixed'' t = Inr w"
  then have t': "t' = t"
    by (auto dest: Put_If_failed)
  from rej t' show "TakeReport now newID putFault getFault alert t =
       (Inr \<lparr>ID = ReportID (as_alertEntry w), Status = StatusMore,
             Report.CreatedAt = recordBase.CreatedAt (as_alertEntry w)\<rparr>, t)"
    by (simp add: TakeReport_def Let_def)
  from t' show "t' = t" .
qed

text \<open>
  The scenario of the spec, with the clock one nanosecond after the event: the alert of
  10:00 on an empty table, then the alert of 11:00, inside the window.
\<close>

theorem TakeReport_contract_witness:
  "TakeReport \<lparr>unixNano = 10 * Hour + 1, zoneOffset = 0\<rparr> ''R1'' None None
       \<lparr>AlertID = ''host-7:ruleA'',
        Alert.Timestamp = \<lparr>unixNano = 10 * Hour, zoneOffset = 0\<rparr>, Body = []\<rparr> []
     = (Inr \<lparr>ID = ''R1'', Status = StatusNew,
             Report.CreatedAt = \<lparr>unixNano = 10 * Hour + 1, zoneOffset = 0\<rparr>\<rparr>,
        [AlertEntryItem
          \<lparr>recordBase.PKey = ''alertmap/host-7:ruleA'', recordBase.SKey = ''Fixed'',
           recordBase.ExpiresAt = \<lparr>unixNano = 13 * Hour, zoneOffset = 0\<rparr>,
           recordBase.CreatedAt = \<lparr>unixNano = 10 * Hour + 1, zoneOffset = 0\<rparr>,
           ReportID = ''R1''\<rparr>])
   \<and> TakeReport \<lparr>unixNano = 12 * Hour, zoneOffset = 0\<rparr> ''R2'' None None
       \<lparr>AlertID = ''host-7:ruleA'',
        Alert.Timestamp = \<lparr>unixNano = 11 * Hour, zoneOffset = 0\<rparr>, Body = []\<rparr>
       [AlertEntryItem
          \<lparr>recordBase.PKey = ''alertmap/host-7:ruleA'', recordBase.SKey = ''Fixed'',
           recordBase.ExpiresAt = \<lparr>unixNano = 13 * Hour, zoneOffset = 0\<rparr>,
           recordBase.CreatedAt = \<lparr>unixNano = 10 * Hour + 1, zoneOffset = 0\<rparr>,
           ReportID = ''R1''\<rparr>]
     = (Inr \<lparr>ID = ''R1'', Status = StatusMore,
             Report.CreatedAt = \<lparr>unixNano = 10 * Hour + 1, zoneOffset = 0\<rparr>\<rparr>,
        [AlertEntryItem
          \<lparr>recordBase.PKey = ''alertmap/host-7:ruleA'', recordBase.SKey = ''Fixed'',
           recordBase.ExpiresAt = \<lparr>unixNano = 13 * Hour, zoneOffset = 0\<rparr>,
           recordBase.CreatedAt = \<lparr>unixNano = 10 * Hour + 1, zoneOffset = 0\<rparr>,
           ReportID = ''R1''\<rparr>])"
proof -
  let ?now1 = "\<lparr>unixNano = 10 * Hour + 1, zoneOffset = 0\<rparr>"
  let ?a1 = "\<lparr>AlertID = ''host-7:ruleA'',
        Alert.Timestamp = \<lparr>unixNano = 10 * Hour, zoneOffset = 0\<rparr>, Body = []\<rparr>"
  let ?e1 = "AlertEntryItem
          \<lparr>recordBase.PKey = ''alertmap/host-7:ruleA'', recordBase.SKey = ''Fixed'',
           recordBase.ExpiresAt = \<lparr>unixNano = 13 * Hour, zoneOffset = 0\<rparr>,
           recordBase.CreatedAt = \<lparr>unixNano = 10 * Hour + 1, zoneOffset = 0\<rparr>,
           ReportID = ''R1''\<rparr>"
  let ?now2 = "\<lparr>unixNano = 12 * Hour, zoneOffset = 0\<rparr>"
  let ?a2 = "\<lparr>AlertID = ''host-7:ruleA'',
        Alert.Timestamp = \<lparr>unixNano = 11 * Hour, zoneOffset = 0\<rparr>, Body = []\<rparr>"
  have acc: "Put_If None
      (AlertEntryItem
         \<lparr>recordBase.PKey = ''alertmap/'' @ AlertID ?a1, recordBase.SKey = ''Fixed'',
          recordBase.ExpiresAt = Add (Alert.Timestamp ?a1) (Hour * 3),
          recordBase.CreatedAt = ?now1, ReportID = ''R1''\<rparr>)
      (Alert.Timestamp ?a1) [] = (None, [?e1])"
    by code_simp
  have rej: "Put_If None
      (AlertEntryItem
         \<lparr>recordBase.PKey = ''alertmap/'' @ AlertID ?a2, recordBase.SKey = ''Fixed'',
          recordBase.ExpiresAt = Add (Alert.Timestamp ?a2) (Hour * 3),
          recordBase.CreatedAt = ?now2, ReportID = ''R2''\<rparr>)
      (Alert.Timestamp ?a2) [?e1]
      = (Some (RequestFailure ''ConditionalCheckFailedException''), [?e1])"
    by code_simp
  have chk: "isConditionalCheckErr (RequestFailure ''ConditionalCheckFailedException'')"
    by simp
  have got: "Get_One None (''alertmap/'' @ AlertID ?a2) ''Fixed'' [?e1] = Inr ?e1"
    by code_simp
  have as: "as_alertEntry ?e1 = \<lparr>recordBase.PKey = ''alertmap/host-7:ruleA'', recordBase.SKey = ''Fixed'',
           recordBase.ExpiresAt = \<lparr>unixNano = 13 * Hour, zoneOffset = 0\<rparr>,
           recordBase.CreatedAt = \<lparr>unixNano = 10 * Hour + 1, zoneOffset = 0\<rparr>,
           ReportID = ''R1''\<rparr>"
    by (simp add: as_alertEntry_def)
  from TakeReport_contract [where putFault = None and alert = ?a1 and now = ?now1
      and newID = "''R1''" and t = "[]" and t' = "[?e1]" and getFault = None] acc
  have one: "TakeReport ?now1 ''R1'' None None ?a1 []
               = (Inr \<lparr>ID = ''R1'', Status = StatusNew, Report.CreatedAt = ?now1\<rparr>, [?e1])"
    by blast
  from TakeReport_contract [where putFault = None and alert = ?a2 and now = ?now2
      and newID = "''R2''" and t = "[?e1]" and t' = "[?e1]" and getFault = None
      and err = "RequestFailure ''ConditionalCheckFailedException''" and w = ?e1] rej chk got
  have "TakeReport ?now2 ''R2'' None None ?a2 [?e1]
               = (Inr \<lparr>ID = ReportID (as_alertEntry ?e1), Status = StatusMore,
             Report.CreatedAt = recordBase.CreatedAt (as_alertEntry ?e1)\<rparr>, [?e1])"
    by blast
  then have two: "TakeReport ?now2 ''R2'' None None ?a2 [?e1]
               = (Inr \<lparr>ID = ''R1'', Status = StatusMore, Report.CreatedAt = ?now1\<rparr>, [?e1])"
    by (simp add: as)
  from one two show ?thesis
    by (intro conjI)
qed

text \<open>
  The claim C2 as it is written fails: a call for an alert of 10:00, made when the clock
  shows one nanosecond past 10:00, returns \<^verbatim>\<open>NEW\<close> with the time of the clock as
  \<^verbatim>\<open>CreatedAt\<close>, not the event timestamp.
\<close>

theorem TakeReport_createdAt_counterexample:
  "fst (TakeReport \<lparr>unixNano = 10 * Hour + 1, zoneOffset = 0\<rparr> ''R1'' None None
          \<lparr>AlertID = ''host-7:ruleA'',
           Alert.Timestamp = \<lparr>unixNano = 10 * Hour, zoneOffset = 0\<rparr>, Body = []\<rparr> [])
     = Inr \<lparr>ID = ''R1'', Status = StatusNew,
            Report.CreatedAt = \<lparr>unixNano = 10 * Hour + 1, zoneOffset = 0\<rparr>\<rparr>
   \<and> \<lparr>unixNano = 10 * Hour + 1, zoneOffset = 0\<rparr>
       \<noteq> Alert.Timestamp \<lparr>AlertID = ''host-7:ruleA'',
           Alert.Timestamp = \<lparr>unixNano = 10 * Hour, zoneOffset = 0\<rparr>, Body = []\<rparr>"
  by (simp add: TakeReport_def Put_If_def table_get_def)




text \<open>
  The other side of the order of the texts: an entry that expired at 13:00 UTC is still
  taken as live by a call whose event timestamp is one nanosecond later.
\<close>

lemma TakeReport_joins_expired_window:
  "fst (TakeReport \<lparr>unixNano = 14 * Hour, zoneOffset = 0\<rparr> ''R2'' None None
     \<lparr>AlertID = ''a'', Alert.Timestamp = \<lparr>unixNano = 13 * Hour + 1, zoneOffset = 0\<rparr>,
      Body = []\<rparr>
     [AlertEntryItem \<lparr>recordBase.PKey = ''alertmap/a'', recordBase.SKey = ''Fixed'',
         recordBase.ExpiresAt = \<lparr>unixNano = 13 * Hour, zoneOffset = 0\<rparr>,
         recordBase.CreatedAt = \<lparr>unixNano = 10 * Hour, zoneOffset = 0\<rparr>, ReportID = ''R1''\<rparr>])
     = Inr \<lparr>ID = ''R1'', Status = StatusMore,
            Report.CreatedAt = \<lparr>unixNano = 10 * Hour, zoneOffset = 0\<rparr>\<rparr>"
  by code_simp

section \<open>Properties of PutAttributeCache\<close>

lemma Hash_Timestamp [simp]: "Hash digest (attr\<lparr>Attribute.Timestamp := ots\<rparr>) = Hash digest attr"
  by (simp add: Hash_def)

lemma PutAttributeCache_admitted:
  assumes "cond_not_exists_or_expired
             (table_get (''attribute/'' @ reportID) (Hash digest attr) t) now"
  shows "PutAttributeCache digest now None reportID attr t =
           ((True, None),
            table_put (AttributeCacheItem
              \<lparr>recordBase.PKey = ''attribute/'' @ reportID,
               recordBase.SKey = Hash digest attr,
               recordBase.ExpiresAt = Add now (Hour * 3),
               recordBase.CreatedAt = zeroTime,
               attributeCache.Timestamp =
                 (case Attribute.Timestamp attr of Some p \<Rightarrow> p | None \<Rightarrow> now),
               AttrKey = Key attr, AttrType = Type attr, AttrValue = Value attr\<rparr>) t)"
  using assms by (simp add: PutAttributeCache_def Put_If_def Let_def)

lemma PutAttributeCache_rejected:
  assumes "\<not> cond_not_exists_or_expired
             (table_get (''attribute/'' @ reportID) (Hash digest attr) t) now"
  shows "PutAttributeCache digest now None reportID attr t = ((False, None), t)"
  using assms by (simp add: PutAttributeCache_def Put_If_def Let_def)

lemma PutAttributeCache_fault:
  "PutAttributeCache digest now (Some err) reportID attr t =
     ((False, if isConditionalCheckErr err then None
              else Some (Wrapf err ''Fail to put attr cache reportID=%s, %v''
                           [ArgS reportID, ArgAttr attr])), t)"
  by (simp add: PutAttributeCache_def Put_If_def Let_def)

lemma PutAttributeCache_admitted_iff:
  "fst (fst (PutAttributeCache digest now putFault reportID attr t))
     \<longleftrightarrow> putFault = None \<and>
         cond_not_exists_or_expired
           (table_get (''attribute/'' @ reportID) (Hash digest attr) t) now"
proof (cases putFault)
  case None
  then show ?thesis
    by (cases "cond_not_exists_or_expired
                 (table_get (''attribute/'' @ reportID) (Hash digest attr) t) now")
       (simp_all add: PutAttributeCache_admitted PutAttributeCache_rejected)
next
  case (Some err)
  then show ?thesis by (simp add: PutAttributeCache_fault)
qed

text \<open>
  C5. The claim fails on the code: a second call with the same attribute, inside the time
  to live of the first, is admitted again. The table compares the texts of the stored
  expiry and of the clock, not the instants. A first call at 0.51 seconds past 00:00 UTC
  stores the expiry 0.51 seconds past 03:00, text \<^verbatim>\<open>1970-01-01T03:00:00.51Z\<close>. A second call
  at 0.5 seconds past 03:00, ten milliseconds before this expiry, has the text
  \<^verbatim>\<open>1970-01-01T03:00:00.5Z\<close>, which the bytes order after the expiry (the digit \<^verbatim>\<open>1\<close>
  comes before the letter \<^verbatim>\<open>Z\<close>): the write is accepted and the call returns \<^verbatim>\<open>true\<close>.
\<close>

theorem PutAttributeCache_admits_twice_within_ttl:
  "PutAttributeCache (\<lambda>k ty v. k @ ''|'' @ ty @ ''|'' @ v)
      \<lparr>unixNano = 510000000, zoneOffset = 0\<rparr> None ''R1''
      \<lparr>Type = ''ipv4'', Key = ''ip'', Value = ''1.2.3.4'', Attribute.Timestamp = None\<rparr> []
    = ((True, None),
       [AttributeCacheItem
          \<lparr>recordBase.PKey = ''attribute/R1'', recordBase.SKey = ''ip|ipv4|1.2.3.4'',
           recordBase.ExpiresAt = \<lparr>unixNano = 3 * Hour + 510000000, zoneOffset = 0\<rparr>,
           recordBase.CreatedAt = zeroTime,
           attributeCache.Timestamp = \<lparr>unixNano = 510000000, zoneOffset = 0\<rparr>,
           AttrKey = ''ip'', AttrType = ''ipv4'', AttrValue = ''1.2.3.4''\<rparr>])
   \<and> MarshalText \<lparr>unixNano = 3 * Hour + 510000000, zoneOffset = 0\<rparr>
       = ''1970-01-01T03:00:00.51Z''
   \<and> MarshalText \<lparr>unixNano = 3 * Hour + 500000000, zoneOffset = 0\<rparr>
       = ''1970-01-01T03:00:00.5Z''
   \<and> unixNano \<lparr>unixNano = 3 * Hour + 500000000, zoneOffset = 0\<rparr> + 10000000
       = unixNano \<lparr>unixNano = 3 * Hour + 510000000, zoneOffset = 0\<rparr>
   \<and> fst (PutAttributeCache (\<lambda>k ty v. k @ ''|'' @ ty @ ''|'' @ v)
      \<lparr>unixNano = 3 * Hour + 500000000, zoneOffset = 0\<rparr> None ''R1''
      \<lparr>Type = ''ipv4'', Key = ''ip'', Value = ''1.2.3.4'', Attribute.Timestamp = None\<rparr>
       [AttributeCacheItem
          \<lparr>recordBase.PKey = ''attribute/R1'', recordBase.SKey = ''ip|ipv4|1.2.3.4'',
           recordBase.ExpiresAt = \<lparr>unixNano = 3 * Hour + 510000000, zoneOffset = 0\<rparr>,
           recordBase.CreatedAt = zeroTime,
           attributeCache.Timestamp = \<lparr>unixNano = 510000000, zoneOffset = 0\<rparr>,
           AttrKey = ''ip'', AttrType = ''ipv4'', AttrValue = ''1.2.3.4''\<rparr>])
     = (True, None)"
  by code_simp

text \<open>
  C6. \<^verbatim>\<open>PutAttributeCache\<close> never returns a rejected conditional write as an error: when
  the condition of the write is false, and whenever the error of the write is a failed
  conditional check, it returns \<^verbatim>\<open>false\<close> and no error. Every other failure of the write
  comes back as an error, the failure wrapped with the report and the attribute; and the
  function returns an error in no other case.
\<close>

theorem PutAttributeCache_conflict_not_error:
  "(putFault = None \<and>
      \<not> cond_not_exists_or_expired
           (table_get (''attribute/'' @ reportID) (Hash digest attr) t) now \<longrightarrow>
      PutAttributeCache digest now putFault reportID attr t = ((False, None), t))
   \<and> (putFault = Some err \<and> isConditionalCheckErr err \<longrightarrow>
      PutAttributeCache digest now putFault reportID attr t = ((False, None), t))
   \<and> (putFault = Some err \<and> \<not> isConditionalCheckErr err \<longrightarrow>
      PutAttributeCache digest now putFault reportID attr t =
        ((False, Some (Wrapf err ''Fail to put attr cache reportID=%s, %v''
                         [ArgS reportID, ArgAttr attr])), t))
   \<and> (snd (fst (PutAttributeCache digest now putFault reportID attr t)) \<noteq> None \<longrightarrow>
      (\<exists>e. putFault = Some e \<and> \<not> isConditionalCheckErr e))"
  by (cases putFault) (simp_all add: PutAttributeCache_def Put_If_def Let_def)

theorem PutAttributeCache_conflict_not_error_witness:
  "PutAttributeCache (\<lambda>k ty v. k @ ''|'' @ ty @ ''|'' @ v)
      \<lparr>unixNano = Hour, zoneOffset = 0\<rparr> None ''R1''
      \<lparr>Type = ''ipv4'', Key = ''ip'', Value = ''1.2.3.4'', Attribute.Timestamp = None\<rparr>
      [AttributeCacheItem
          \<lparr>recordBase.PKey = ''attribute/R1'', recordBase.SKey = ''ip|ipv4|1.2.3.4'',
           recordBase.ExpiresAt = \<lparr>unixNano = 3 * Hour, zoneOffset = 0\<rparr>,
           recordBase.CreatedAt = zeroTime,
           attributeCache.Timestamp = \<lparr>unixNano = 0, zoneOffset = 0\<rparr>,
           AttrKey = ''ip'', AttrType = ''ipv4'', AttrValue = ''1.2.3.4''\<rparr>]
    = ((False, None),
       [AttributeCacheItem
          \<lparr>recordBase.PKey = ''attribute/R1'', recordBase.SKey = ''ip|ipv4|1.2.3.4'',
           recordBase.ExpiresAt = \<lparr>unixNano = 3 * Hour, zoneOffset = 0\<rparr>,
           recordBase.CreatedAt = zeroTime,
           attributeCache.Timestamp = \<lparr>unixNano = 0, zoneOffset = 0\<rparr>,
           AttrKey = ''ip'', AttrType = ''ipv4'', AttrValue = ''1.2.3.4''\<rparr>])
   \<and> PutAttributeCache (\<lambda>k ty v. k @ ''|'' @ ty @ ''|'' @ v)
        \<lparr>unixNano = Hour, zoneOffset = 0\<rparr>
        (Some (RequestFailure ''ConditionalCheckFailedException'')) ''R1''
        \<lparr>Type = ''ipv4'', Key = ''ip'', Value = ''1.2.3.4'', Attribute.Timestamp = None\<rparr> []
      = ((False, None), [])
   \<and> PutAttributeCache (\<lambda>k ty v. k @ ''|'' @ ty @ ''|'' @ v)
        \<lparr>unixNano = Hour, zoneOffset = 0\<rparr>
        (Some (RequestFailure ''InternalServerError'')) ''R1''
        \<lparr>Type = ''ipv4'', Key = ''ip'', Value = ''1.2.3.4'', Attribute.Timestamp = None\<rparr> []
      = ((False, Some (Wrapf (RequestFailure ''InternalServerError'')
                         ''Fail to put attr cache reportID=%s, %v''
                         [ArgS ''R1'',
                          ArgAttr \<lparr>Type = ''ipv4'', Key = ''ip'', Value = ''1.2.3.4'',
                                   Attribute.Timestamp = None\<rparr>])), [])"
proof -
  let ?d = "\<lambda>k ty v. k @ ''|'' @ ty @ ''|'' @ (v :: string)"
  let ?a = "\<lparr>Type = ''ipv4'', Key = ''ip'', Value = ''1.2.3.4'', Attribute.Timestamp = None\<rparr>"
  let ?now = "\<lparr>unixNano = Hour, zoneOffset = 0\<rparr>"
  let ?t = "[AttributeCacheItem
          \<lparr>recordBase.PKey = ''attribute/R1'', recordBase.SKey = ''ip|ipv4|1.2.3.4'',
           recordBase.ExpiresAt = \<lparr>unixNano = 3 * Hour, zoneOffset = 0\<rparr>,
           recordBase.CreatedAt = zeroTime,
           attributeCache.Timestamp = \<lparr>unixNano = 0, zoneOffset = 0\<rparr>,
           AttrKey = ''ip'', AttrType = ''ipv4'', AttrValue = ''1.2.3.4''\<rparr>]"
  have live: "\<not> cond_not_exists_or_expired
                  (table_get (''attribute/'' @ ''R1'') (Hash ?d ?a) ?t) ?now"
    by code_simp
  have c1: "isConditionalCheckErr (RequestFailure ''ConditionalCheckFailedException'')"
    and c2: "\<not> isConditionalCheckErr (RequestFailure ''InternalServerError'')"
    by simp_all
  from PutAttributeCache_conflict_not_error
         [where putFault = None and reportID = "''R1''" and digest = ?d and attr = ?a
            and t = ?t and now = ?now] live
  have one: "PutAttributeCache ?d ?now None ''R1'' ?a ?t = ((False, None), ?t)"
    by blast
  from PutAttributeCache_conflict_not_error
         [where putFault = "Some (RequestFailure ''ConditionalCheckFailedException'')"
            and reportID = "''R1''" and digest = ?d and attr = ?a and t = "[]" and now = ?now
            and err = "RequestFailure ''ConditionalCheckFailedException''"] c1
  have two: "PutAttributeCache ?d ?now
               (Some (RequestFailure ''ConditionalCheckFailedException'')) ''R1'' ?a []
             = ((False, None), [])"
    by blast
  from PutAttributeCache_conflict_not_error
         [where putFault = "Some (RequestFailure ''InternalServerError'')"
            and reportID = "''R1''" and digest = ?d and attr = ?a and t = "[]" and now = ?now
            and err = "RequestFailure ''InternalServerError''"] c2
  have three: "PutAttributeCache ?d ?now
               (Some (RequestFailure ''InternalServerError'')) ''R1'' ?a []
             = ((False, Some (Wrapf (RequestFailure ''InternalServerError'')
                         ''Fail to put attr cache reportID=%s, %v''
                         [ArgS ''R1'', ArgAttr ?a])), [])"
    by blast
  from one two three show ?thesis
    by (intro conjI)
qed

text \<open>
  C10. When \<^verbatim>\<open>PutAttributeCache\<close> admits an attribute, the record that it stores has the
  expiry \<open>now\<close> plus three hours, and as \<^verbatim>\<open>Timestamp\<close> the observation time of the attribute
  or, when the attribute has none (\<^verbatim>\<open>nil\<close>), the time \<open>now\<close> of the clock at the call. The
  boolean that it returns does not depend on the observation time of the attribute: it is
  \<^verbatim>\<open>true\<close> exactly when the write has no fault and its condition, evaluated with \<open>now\<close>,
  holds.
\<close>

theorem PutAttributeCache_timestamp:
  "(fst (fst (PutAttributeCache digest now putFault reportID attr t)) \<longrightarrow>
      table_get (''attribute/'' @ reportID) (Hash digest attr)
          (snd (PutAttributeCache digest now putFault reportID attr t))
        = Some (AttributeCacheItem
            \<lparr>recordBase.PKey = ''attribute/'' @ reportID,
             recordBase.SKey = Hash digest attr,
             recordBase.ExpiresAt = Add now (Hour * 3),
             recordBase.CreatedAt = zeroTime,
             attributeCache.Timestamp =
               (case Attribute.Timestamp attr of Some p \<Rightarrow> p | None \<Rightarrow> now),
             AttrKey = Key attr, AttrType = Type attr, AttrValue = Value attr\<rparr>))
   \<and> fst (fst (PutAttributeCache digest now putFault reportID
                 (attr\<lparr>Attribute.Timestamp := ots\<rparr>) t))
       = fst (fst (PutAttributeCache digest now putFault reportID attr t))
   \<and> (fst (fst (PutAttributeCache digest now putFault reportID attr t))
        \<longleftrightarrow> putFault = None \<and>
            cond_not_exists_or_expired
              (table_get (''attribute/'' @ reportID) (Hash digest attr) t) now)"
proof (intro conjI impI)
  assume adm: "fst (fst (PutAttributeCache digest now putFault reportID attr t))"
  let ?c = "\<lparr>recordBase.PKey = ''attribute/'' @ reportID,
             recordBase.SKey = Hash digest attr,
             recordBase.ExpiresAt = Add now (Hour * 3),
             recordBase.CreatedAt = zeroTime,
             attributeCache.Timestamp =
               (case Attribute.Timestamp attr of Some p \<Rightarrow> p | None \<Rightarrow> now),
             AttrKey = Key attr, AttrType = Type attr, AttrValue = Value attr\<rparr>"
  from adm have pf: "putFault = None"
    and c: "cond_not_exists_or_expired
              (table_get (''attribute/'' @ reportID) (Hash digest attr) t) now"
    by (simp_all add: PutAttributeCache_admitted_iff)
  have "snd (PutAttributeCache digest now putFault reportID attr t)
          = table_put (AttributeCacheItem ?c) t"
    using pf PutAttributeCache_admitted [OF c] by simp
  moreover have "table_get (item_pk (AttributeCacheItem ?c)) (item_sk (AttributeCacheItem ?c))
                   (table_put (AttributeCacheItem ?c) t) = Some (AttributeCacheItem ?c)"
    by (rule table_get_put_same)
  ultimately show "table_get (''attribute/'' @ reportID) (Hash digest attr)
          (snd (PutAttributeCache digest now putFault reportID attr t))
        = Some (AttributeCacheItem ?c)"
    by simp
next
  show "fst (fst (PutAttributeCache digest now putFault reportID
                 (attr\<lparr>Attribute.Timestamp := ots\<rparr>) t))
       = fst (fst (PutAttributeCache digest now putFault reportID attr t))"
    by (simp add: PutAttributeCache_admitted_iff)
next
  show "fst (fst (PutAttributeCache digest now putFault reportID attr t))
        \<longleftrightarrow> putFault = None \<and>
            cond_not_exists_or_expired
              (table_get (''attribute/'' @ reportID) (Hash digest attr) t) now"
    by (rule PutAttributeCache_admitted_iff)
qed

theorem PutAttributeCache_timestamp_witness:
  "table_get ''attribute/R1'' ''ip|ipv4|1.2.3.4''
     (snd (PutAttributeCache (\<lambda>k ty v. k @ ''|'' @ ty @ ''|'' @ v)
        \<lparr>unixNano = Hour, zoneOffset = 0\<rparr> None ''R1''
        \<lparr>Type = ''ipv4'', Key = ''ip'', Value = ''1.2.3.4'', Attribute.Timestamp = None\<rparr> []))
    = Some (AttributeCacheItem
          \<lparr>recordBase.PKey = ''attribute/R1'', recordBase.SKey = ''ip|ipv4|1.2.3.4'',
           recordBase.ExpiresAt = Add \<lparr>unixNano = Hour, zoneOffset = 0\<rparr> (Hour * 3),
           recordBase.CreatedAt = zeroTime,
           attributeCache.Timestamp = \<lparr>unixNano = Hour, zoneOffset = 0\<rparr>,
           AttrKey = ''ip'', AttrType = ''ipv4'', AttrValue = ''1.2.3.4''\<rparr>)
   \<and> fst (fst (PutAttributeCache (\<lambda>k ty v. k @ ''|'' @ ty @ ''|'' @ v)
        \<lparr>unixNano = Hour, zoneOffset = 0\<rparr> None ''R1''
        \<lparr>Type = ''ipv4'', Key = ''ip'', Value = ''1.2.3.4'',
         Attribute.Timestamp = Some \<lparr>unixNano = 5, zoneOffset = 0\<rparr>\<rparr> []))"
proof -
  let ?d = "\<lambda>k ty v. k @ ''|'' @ ty @ ''|'' @ (v :: string)"
  let ?a = "\<lparr>Type = ''ipv4'', Key = ''ip'', Value = ''1.2.3.4'', Attribute.Timestamp = None\<rparr>"
  let ?now = "\<lparr>unixNano = Hour, zoneOffset = 0\<rparr>"
  have adm: "fst (fst (PutAttributeCache ?d ?now None ''R1'' ?a []))"
    by (simp add: PutAttributeCache_def Put_If_def table_get_def)
  show ?thesis
    using adm PutAttributeCache_timestamp
        [of ?d ?now None "''R1''" ?a "[]" "Some \<lparr>unixNano = 5, zoneOffset = 0\<rparr>"]
    by (simp add: Hash_def)
qed

section \<open>Properties of the logs\<close>

lemma table_put_fresh: "key_of v \<notin> key_of ` set t \<Longrightarrow> table_put v t = t @ [v]"
  by (induction t) auto

lemma fresh_in_partition:
  "item_sk v \<notin> item_sk ` set (table_all (item_pk v) t) \<Longrightarrow> key_of v \<notin> key_of ` set t"
  by (auto simp: set_table_all key_of_def)

lemma SaveAlertCache_ok:
  "Marshal alert = Inr raw \<Longrightarrow>
     SaveAlertCache Marshal x uuid None reportID alert t =
       (None, table_put (AlertCacheItem
          \<lparr>alertCache.PKey = ''alert/'' @ reportID, alertCache.SKey = ''cache/'' @ uuid,
           AlertData = raw,
           alertCache.ExpiresAt = Add (Alert.Timestamp alert) (timeToLive x)\<rparr>) t)"
  by (simp add: SaveAlertCache_def toAlertCacheKey_def Put_def)

lemma SaveAlertCache_None:
  "fst (SaveAlertCache Marshal x uuid putFault reportID alert t) = None \<Longrightarrow>
     putFault = None \<and> (\<exists>raw. Marshal alert = Inr raw)"
  by (cases putFault; cases "Marshal alert")
     (simp_all add: SaveAlertCache_def toAlertCacheKey_def Put_def)

lemma SaveAlertCaches_partition:
  assumes "SaveAlertCaches Marshal x reportID cs t = (rs, t')"
    and "\<forall>r \<in> set rs. r = None"
    and "distinct (map fst cs)"
    and "\<forall>c \<in> set cs. ''cache/'' @ fst c \<notin> item_sk ` set (table_all (''alert/'' @ reportID) t)"
  shows "t' = t @ map (stored_cache Marshal x reportID) cs"
  using assms
proof (induction cs arbitrary: t rs t')
  case Nil
  then show ?case by simp
next
  case (Cons c cs)
  obtain uuid putFault alert where c: "c = (uuid, putFault, alert)"
    by (cases c)
  obtain r t1 where s1: "SaveAlertCache Marshal x uuid putFault reportID alert t = (r, t1)"
    by (cases "SaveAlertCache Marshal x uuid putFault reportID alert t")
  obtain rs1 t2 where s2: "SaveAlertCaches Marshal x reportID cs t1 = (rs1, t2)"
    by (cases "SaveAlertCaches Marshal x reportID cs t1")
  from Cons.prems(1) have rs: "rs = r # rs1" and t': "t' = t2"
    by (simp_all add: c s1 s2)
  from Cons.prems(2) rs have r: "r = None" and rs1: "\<forall>r \<in> set rs1. r = None"
    by simp_all
  from s1 r SaveAlertCache_None [of Marshal x uuid putFault reportID alert t]
  obtain raw where pf: "putFault = None" and raw: "Marshal alert = Inr raw"
    by auto
  let ?v = "AlertCacheItem
          \<lparr>alertCache.PKey = ''alert/'' @ reportID, alertCache.SKey = ''cache/'' @ uuid,
           AlertData = raw,
           alertCache.ExpiresAt = Add (Alert.Timestamp alert) (timeToLive x)\<rparr>"
  have v: "stored_cache Marshal x reportID c = ?v"
    by (simp add: stored_cache_def c raw)
  have "item_sk ?v \<notin> item_sk ` set (table_all (item_pk ?v) t)"
    using Cons.prems(4) by (simp add: c)
  then have "key_of ?v \<notin> key_of ` set t"
    by (rule fresh_in_partition)
  then have "table_put ?v t = t @ [?v]"
    by (rule table_put_fresh)
  with s1 pf SaveAlertCache_ok [of Marshal alert raw x uuid reportID t] raw
  have t1: "t1 = t @ [?v]"
    by simp
  have "\<forall>c' \<in> set cs. ''cache/'' @ fst c' \<notin> item_sk ` set (table_all (''alert/'' @ reportID) t1)"
  proof
    fix c' assume c': "c' \<in> set cs"
    with Cons.prems(3) have "fst c' \<noteq> uuid"
      by (auto simp: c)
    moreover from c' Cons.prems(4)
    have "''cache/'' @ fst c' \<notin> item_sk ` set (table_all (''alert/'' @ reportID) t)"
      by simp
    ultimately show "''cache/'' @ fst c' \<notin> item_sk ` set (table_all (''alert/'' @ reportID) t1)"
      by (auto simp: t1 set_table_all)
  qed
  moreover from Cons.prems(3) have "distinct (map fst cs)"
    by simp
  ultimately have "t2 = t1 @ map (stored_cache Marshal x reportID) cs"
    using Cons.IH [OF s2 rs1] by blast
  then show ?case
    by (simp add: t' t1 v)
qed

lemma SaveAlertCaches_all_ok:
  assumes "SaveAlertCaches Marshal x reportID cs t = (rs, t')"
    and "\<forall>r \<in> set rs. r = None"
  shows "\<forall>c \<in> set cs. \<exists>raw. Marshal (snd (snd c)) = Inr raw"
  using assms
proof (induction cs arbitrary: t rs t')
  case Nil
  then show ?case by simp
next
  case (Cons c cs)
  obtain uuid putFault alert where c: "c = (uuid, putFault, alert)"
    by (cases c)
  obtain r t1 where s1: "SaveAlertCache Marshal x uuid putFault reportID alert t = (r, t1)"
    by (cases "SaveAlertCache Marshal x uuid putFault reportID alert t")
  obtain rs1 t2 where s2: "SaveAlertCaches Marshal x reportID cs t1 = (rs1, t2)"
    by (cases "SaveAlertCaches Marshal x reportID cs t1")
  from Cons.prems(1) have rs: "rs = r # rs1"
    by (simp add: c s1 s2)
  from Cons.prems(2) rs have r: "r = None" and rs1: "\<forall>r \<in> set rs1. r = None"
    by simp_all
  from s1 r SaveAlertCache_None [of Marshal x uuid putFault reportID alert t]
  have "\<exists>raw. Marshal alert = Inr raw"
    by auto
  with Cons.IH [OF s2 rs1] show ?case
    by (simp add: c)
qed

lemma FetchAlertCache_loop_all2:
  "list_all2 (\<lambda>c a. Unmarshal (AlertData c) = Inr a) caches ys \<Longrightarrow>
     FetchAlertCache_loop Unmarshal caches alerts = Inr (alerts @ ys)"
proof (induction caches arbitrary: alerts ys)
  case Nil
  then show ?case by simp
next
  case (Cons c caches)
  then obtain y ys' where "ys = y # ys'" "Unmarshal (AlertData c) = Inr y"
    "list_all2 (\<lambda>c a. Unmarshal (AlertData c) = Inr a) caches ys'"
    by (auto simp: list_all2_Cons1)
  with Cons.IH [of ys' "alerts @ [y]"] show ?case
    by simp
qed

lemma FetchAlertCache_loop_fail:
  "\<exists>c \<in> set caches. isl (Unmarshal (AlertData c)) \<Longrightarrow>
     \<exists>c \<in> set caches. \<exists>e. Unmarshal (AlertData c) = Inl e \<and>
        FetchAlertCache_loop Unmarshal caches alerts =
          Inl (Wrapf e ''Fail to unmarshal alert: %s'' [ArgS (AlertData c)])"
proof (induction caches arbitrary: alerts)
  case Nil
  then show ?case by simp
next
  case (Cons c caches)
  show ?case
  proof (cases "Unmarshal (AlertData c)")
    case (Inl e)
    then show ?thesis by auto
  next
    case (Inr a)
    with Cons.prems have "\<exists>c \<in> set caches. isl (Unmarshal (AlertData c))"
      by auto
    from Cons.IH [OF this, of "alerts @ [a]"] Inr show ?thesis
      by auto
  qed
qed

lemma FetchReportSection_loop_fail:
  "\<exists>r \<in> set records. isl (Unmarshal (Data r)) \<Longrightarrow>
     \<exists>r \<in> set records. \<exists>e. Unmarshal (Data r) = Inl e \<and>
        FetchReportSection_loop Unmarshal records sections =
          Inl (Wrapf e ''Fail to unmarshal report content: %v %s'' [ArgRecord r, ArgS (Data r)])"
proof (induction records arbitrary: sections)
  case Nil
  then show ?case by simp
next
  case (Cons r records)
  show ?case
  proof (cases "Unmarshal (Data r)")
    case (Inl e)
    then show ?thesis by auto
  next
    case (Inr a)
    with Cons.prems have "\<exists>r \<in> set records. isl (Unmarshal (Data r))"
      by auto
    from Cons.IH [OF this, of "sections @ [a]"] Inr show ?thesis
      by auto
  qed
qed

text \<open>
  C7. An append writes with no condition, under the sort key made of the fresh identity
  drawn for it, and succeeds on every table when the alert is encoded and the write has no
  fault. Let \<open>k\<close> appends for one report, each with an identity of its own, all
  succeed on a table that holds no snapshot of this report, and let the decoder accept what
  the encoder produced. Then \<^verbatim>\<open>FetchAlertCache\<close> returns the \<open>k\<close> decoded alerts, as a
  collection without order; a second fetch returns the same; and the appends have
  overwritten nothing: the table is the one before, with \<open>k\<close> items more.
\<close>

theorem SaveAlertCache_accumulates:
  assumes empty: "table_all (''alert/'' @ reportID) t = []"
    and uniq: "distinct (map fst cs)"
    and run: "SaveAlertCaches Marshal x reportID cs t = (rs, t')"
    and ok: "\<forall>r \<in> set rs. r = None"
    and dec: "\<forall>c \<in> set cs. \<forall>raw. Marshal (snd (snd c)) = Inr raw \<longrightarrow>
                Unmarshal raw = Inr (decoded (snd (snd c)))"
  shows "\<exists>alerts.
           FetchAlertCache Unmarshal uuid None reportID t' = Inr alerts
         \<and> mset alerts = mset (map (\<lambda>c. decoded (snd (snd c))) cs)
         \<and> length alerts = length cs
         \<and> FetchAlertCache Unmarshal uuid' None reportID t' = Inr alerts
         \<and> take (length t) t' = t
         \<and> length t' = length t + length cs
         \<and> (\<forall>raw. Marshal a = Inr raw \<longrightarrow>
               fst (SaveAlertCache Marshal x u None reportID a t0) = None)"
proof -
  let ?pk = "''alert/'' @ reportID"
  let ?st = "stored_cache Marshal x reportID"
  let ?g = "\<lambda>w. projr (Unmarshal (AlertData (as_alertCache w)))"
  have fresh: "\<forall>c \<in> set cs. ''cache/'' @ fst c \<notin> item_sk ` set (table_all ?pk t)"
    by (simp only: empty) simp
  have t': "t' = t @ map ?st cs"
    by (rule SaveAlertCaches_partition [OF run ok uniq fresh])
  have none: "\<forall>w \<in> set t. item_pk w \<noteq> ?pk"
    using empty by (simp only: table_all_Nil_iff)
  have "filter_mset (\<lambda>w. item_pk w = ?pk) (mset t) = {#}"
    using none by simp
  moreover have "filter (\<lambda>w. item_pk w = ?pk) (map ?st cs) = map ?st cs"
    by (simp add: stored_cache_def)
  then have "filter_mset (\<lambda>w. item_pk w = ?pk) (mset (map ?st cs)) = mset (map ?st cs)"
    by (metis mset_filter)
  ultimately have part: "mset (table_all ?pk t') = mset (map ?st cs)"
    by (simp only: mset_table_all t' mset_append filter_union_mset) simp
  have raws: "\<forall>c \<in> set cs. \<exists>raw. Marshal (snd (snd c)) = Inr raw"
    by (rule SaveAlertCaches_all_ok [OF run ok])
  have dec_st: "\<forall>c \<in> set cs.
      Unmarshal (AlertData (as_alertCache (?st c))) = Inr (decoded (snd (snd c)))"
  proof
    fix c assume c: "c \<in> set cs"
    with raws obtain raw where raw: "Marshal (snd (snd c)) = Inr raw"
      by blast
    with dec c have "Unmarshal raw = Inr (decoded (snd (snd c)))"
      by blast
    then show "Unmarshal (AlertData (as_alertCache (?st c))) = Inr (decoded (snd (snd c)))"
      by (simp add: as_alertCache_def stored_cache_def raw)
  qed
  have "set (table_all ?pk t') = ?st ` set cs"
    using part by (metis set_mset_mset set_map)
  with dec_st have "\<forall>w \<in> set (table_all ?pk t').
      Unmarshal (AlertData (as_alertCache w)) = Inr (?g w)"
    by auto
  then have "list_all2 (\<lambda>c a. Unmarshal (AlertData c) = Inr a)
               (map as_alertCache (table_all ?pk t')) (map ?g (table_all ?pk t'))"
    by (simp add: list_all2_map1 list_all2_map2 list_all2_same)
  from FetchAlertCache_loop_all2 [OF this, of "[]"]
  have loop: "FetchAlertCache_loop Unmarshal (map as_alertCache (table_all ?pk t')) []
                = Inr (map ?g (table_all ?pk t'))"
    by simp
  have fetch: "FetchAlertCache Unmarshal u None reportID t'
                 = Inr (map ?g (table_all ?pk t'))" for u
    using loop by (simp add: FetchAlertCache_def toAlertCacheKey_def Get_All_def)
  have "mset (map ?g (table_all ?pk t')) = image_mset ?g (mset (map ?st cs))"
    using part by (metis mset_map)
  also have "\<dots> = mset (map (\<lambda>c. ?g (?st c)) cs)"
    by (simp add: multiset.map_comp comp_def)
  also have "map (\<lambda>c. ?g (?st c)) cs = map (\<lambda>c. decoded (snd (snd c))) cs"
    using dec_st by (intro map_cong) simp_all
  finally have ms: "mset (map ?g (table_all ?pk t')) = mset (map (\<lambda>c. decoded (snd (snd c))) cs)" .
  then have len: "length (map ?g (table_all ?pk t')) = length cs"
    by (metis length_map size_mset)
  have "\<forall>raw. Marshal a = Inr raw \<longrightarrow>
               fst (SaveAlertCache Marshal x u None reportID a t0) = None"
    by (simp add: SaveAlertCache_ok)
  then show ?thesis
    using fetch [of uuid] fetch [of uuid'] ms len by (simp add: t')
qed

theorem SaveAlertCache_accumulates_witness:
  "FetchAlertCache
     (\<lambda>raw. Inr \<lparr>AlertID = ''id'', Alert.Timestamp = zeroTime, Body = raw\<rparr>) ''u3'' None ''R1''
     [AlertCacheItem \<lparr>alertCache.PKey = ''alert/R1'', alertCache.SKey = ''cache/u2'',
                       AlertData = ''b'', alertCache.ExpiresAt = Add zeroTime (Hour * 3)\<rparr>,
      AlertCacheItem \<lparr>alertCache.PKey = ''alert/R1'', alertCache.SKey = ''cache/u1'',
                       AlertData = ''a'', alertCache.ExpiresAt = Add zeroTime (Hour * 3)\<rparr>]
   = Inr [\<lparr>AlertID = ''id'', Alert.Timestamp = zeroTime, Body = ''a''\<rparr>,
          \<lparr>AlertID = ''id'', Alert.Timestamp = zeroTime, Body = ''b''\<rparr>]"
proof -
  let ?M = "\<lambda>a. Inr (Body a) :: error + string"
  let ?U = "\<lambda>raw. Inr \<lparr>AlertID = ''id'', Alert.Timestamp = zeroTime, Body = raw\<rparr>
              :: error + Alert"
  let ?x = "NewDataStoreService ''table'' ''region''"
  let ?cs = "[(''u2'', None, \<lparr>AlertID = ''id'', Alert.Timestamp = zeroTime, Body = ''b''\<rparr>),
              (''u1'', None, \<lparr>AlertID = ''id'', Alert.Timestamp = zeroTime, Body = ''a''\<rparr>)]"
  let ?t' = "[AlertCacheItem \<lparr>alertCache.PKey = ''alert/R1'', alertCache.SKey = ''cache/u2'',
                       AlertData = ''b'', alertCache.ExpiresAt = Add zeroTime (Hour * 3)\<rparr>,
      AlertCacheItem \<lparr>alertCache.PKey = ''alert/R1'', alertCache.SKey = ''cache/u1'',
                       AlertData = ''a'', alertCache.ExpiresAt = Add zeroTime (Hour * 3)\<rparr>]"
  have empty: "table_all (''alert/'' @ ''R1'') [] = []"
    by (simp add: table_all_def sort_by_sk_def)
  have uniq: "distinct (map fst ?cs)"
    by simp
  have run: "SaveAlertCaches ?M ?x ''R1'' ?cs [] = ([None, None], ?t')"
    by (simp add: SaveAlertCache_def toAlertCacheKey_def Put_def NewDataStoreService_def
        key_of_def)
  have ok: "\<forall>r \<in> set [None, None :: error option]. r = None"
    by simp
  have dec: "\<forall>c \<in> set ?cs. \<forall>raw. ?M (snd (snd c)) = Inr raw \<longrightarrow>
               ?U raw = Inr ((\<lambda>a. a) (snd (snd c)))"
    by auto
  have ev: "FetchAlertCache ?U ''u3'' None ''R1'' ?t'
              = Inr [\<lparr>AlertID = ''id'', Alert.Timestamp = zeroTime, Body = ''a''\<rparr>,
                     \<lparr>AlertID = ''id'', Alert.Timestamp = zeroTime, Body = ''b''\<rparr>]"
    by code_simp
  from SaveAlertCache_accumulates [OF empty uniq run ok dec, of "''u3''" "''u4''"] ev
  show ?thesis
    by simp
qed

lemma FetchAlertCache_loop_length:
  "FetchAlertCache_loop Unmarshal caches alerts = Inr xs \<Longrightarrow>
     length xs = length alerts + length caches"
proof (induction caches arbitrary: alerts)
  case Nil
  then show ?case by auto
next
  case (Cons c caches)
  then show ?case
    by (cases "Unmarshal (AlertData c)") fastforce+
qed

lemma FetchReportSection_loop_length:
  "FetchReportSection_loop Unmarshal records sections = Inr xs \<Longrightarrow>
     length xs = length sections + length records"
proof (induction records arbitrary: sections)
  case Nil
  then show ?case by auto
next
  case (Cons r records)
  then show ?case
    by (cases "Unmarshal (Data r)") fastforce+
qed

lemma FetchAlertCache_length:
  "FetchAlertCache UnmarshalAlert uuid getFault reportID t = Inr xs \<Longrightarrow>
        length xs = length (table_all (''alert/'' @ reportID) t)"
  by (cases getFault)
     (auto simp: FetchAlertCache_def toAlertCacheKey_def Get_All_def
        dest: FetchAlertCache_loop_length)

lemma FetchReportSection_length:
  "FetchReportSection UnmarshalSection uuid getFault reportID t = Inr ys \<Longrightarrow>
        length ys = length (table_all (''content/'' @ reportID) t)"
  by (cases getFault)
     (auto simp: FetchReportSection_def toReportSectionRecord_def Get_All_def
        dest: FetchReportSection_loop_length)

text \<open>
  C8. The two fetches return all or nothing. If the payload of one record of the partition
  does not decode, the fetch returns an error, not a list: the error of the decoder,
  wrapped with the payload of a record that failed (and, for a section, the record). If the
  partition has no record, the fetch returns the empty list and no error. And a list that
  a fetch returns has an element for every record of the partition.
\<close>

theorem Fetch_all_or_nothing:
  "((\<exists>c \<in> set (map as_alertCache (table_all (''alert/'' @ reportID) t)).
        isl (UnmarshalAlert (AlertData c))) \<longrightarrow>
      (\<exists>c \<in> set (map as_alertCache (table_all (''alert/'' @ reportID) t)).
         \<exists>e. UnmarshalAlert (AlertData c) = Inl e \<and>
           FetchAlertCache UnmarshalAlert uuid None reportID t =
             Inl (Wrapf e ''Fail to unmarshal alert: %s'' [ArgS (AlertData c)])))
   \<and> (table_all (''alert/'' @ reportID) t = [] \<longrightarrow>
        FetchAlertCache UnmarshalAlert uuid None reportID t = Inr [])
   \<and> ((\<exists>r \<in> set (map as_reportSectionRecord (table_all (''content/'' @ reportID) t)).
        isl (UnmarshalSection (Data r))) \<longrightarrow>
      (\<exists>r \<in> set (map as_reportSectionRecord (table_all (''content/'' @ reportID) t)).
         \<exists>e. UnmarshalSection (Data r) = Inl e \<and>
           FetchReportSection UnmarshalSection uuid None reportID t =
             Inl (Wrapf e ''Fail to unmarshal report content: %v %s''
                    [ArgRecord r, ArgS (Data r)])))
   \<and> (table_all (''content/'' @ reportID) t = [] \<longrightarrow>
        FetchReportSection UnmarshalSection uuid None reportID t = Inr [])
   \<and> (FetchAlertCache UnmarshalAlert uuid getFault reportID t = Inr xs \<longrightarrow>
        length xs = length (table_all (''alert/'' @ reportID) t))
   \<and> (FetchReportSection UnmarshalSection uuid getFault reportID t = Inr ys \<longrightarrow>
        length ys = length (table_all (''content/'' @ reportID) t))"
proof (intro conjI impI)
  assume "\<exists>c \<in> set (map as_alertCache (table_all (''alert/'' @ reportID) t)).
        isl (UnmarshalAlert (AlertData c))"
  from FetchAlertCache_loop_fail [OF this, of "[]"]
  show "\<exists>c \<in> set (map as_alertCache (table_all (''alert/'' @ reportID) t)).
         \<exists>e. UnmarshalAlert (AlertData c) = Inl e \<and>
           FetchAlertCache UnmarshalAlert uuid None reportID t =
             Inl (Wrapf e ''Fail to unmarshal alert: %s'' [ArgS (AlertData c)])"
    by (simp add: FetchAlertCache_def toAlertCacheKey_def Get_All_def)
next
  assume "table_all (''alert/'' @ reportID) t = []"
  then show "FetchAlertCache UnmarshalAlert uuid None reportID t = Inr []"
    by (simp add: FetchAlertCache_def toAlertCacheKey_def Get_All_def)
next
  assume "\<exists>r \<in> set (map as_reportSectionRecord (table_all (''content/'' @ reportID) t)).
        isl (UnmarshalSection (Data r))"
  from FetchReportSection_loop_fail [OF this, of "[]"]
  show "\<exists>r \<in> set (map as_reportSectionRecord (table_all (''content/'' @ reportID) t)).
         \<exists>e. UnmarshalSection (Data r) = Inl e \<and>
           FetchReportSection UnmarshalSection uuid None reportID t =
             Inl (Wrapf e ''Fail to unmarshal report content: %v %s''
                    [ArgRecord r, ArgS (Data r)])"
    by (simp add: FetchReportSection_def toReportSectionRecord_def Get_All_def)
next
  assume "table_all (''content/'' @ reportID) t = []"
  then show "FetchReportSection UnmarshalSection uuid None reportID t = Inr []"
    by (simp add: FetchReportSection_def toReportSectionRecord_def Get_All_def)
next
  assume "FetchAlertCache UnmarshalAlert uuid getFault reportID t = Inr xs"
  then show "length xs = length (table_all (''alert/'' @ reportID) t)"
    by (rule FetchAlertCache_length)
next
  assume "FetchReportSection UnmarshalSection uuid getFault reportID t = Inr ys"
  then show "length ys = length (table_all (''content/'' @ reportID) t)"
    by (rule FetchReportSection_length)
qed

theorem Fetch_all_or_nothing_witness:
  "FetchAlertCache
     (\<lambda>raw. if raw = ''{'' then Inl (Failure ''unexpected end of JSON input'')
            else Inr \<lparr>AlertID = ''id'', Alert.Timestamp = zeroTime, Body = raw\<rparr>) ''u'' None ''R1''
     [AlertCacheItem \<lparr>alertCache.PKey = ''alert/R1'', alertCache.SKey = ''cache/u1'',
                       AlertData = ''a'', alertCache.ExpiresAt = zeroTime\<rparr>,
      AlertCacheItem \<lparr>alertCache.PKey = ''alert/R1'', alertCache.SKey = ''cache/u2'',
                       AlertData = ''{'', alertCache.ExpiresAt = zeroTime\<rparr>,
      ReportSectionItem \<lparr>recordBase.PKey = ''content/R1'', recordBase.SKey = ''h/u1'',
                          recordBase.ExpiresAt = zeroTime, recordBase.CreatedAt = zeroTime, Data = ''{''\<rparr>]
    = Inl (Wrapf (Failure ''unexpected end of JSON input'') ''Fail to unmarshal alert: %s''
             [ArgS ''{''])
   \<and> FetchReportSection
     (\<lambda>raw. if raw = ''{'' then Inl (Failure ''unexpected end of JSON input'')
            else Inr raw) ''u'' None ''R1''
     [AlertCacheItem \<lparr>alertCache.PKey = ''alert/R1'', alertCache.SKey = ''cache/u1'',
                       AlertData = ''a'', alertCache.ExpiresAt = zeroTime\<rparr>,
      AlertCacheItem \<lparr>alertCache.PKey = ''alert/R1'', alertCache.SKey = ''cache/u2'',
                       AlertData = ''{'', alertCache.ExpiresAt = zeroTime\<rparr>,
      ReportSectionItem \<lparr>recordBase.PKey = ''content/R1'', recordBase.SKey = ''h/u1'',
                          recordBase.ExpiresAt = zeroTime, recordBase.CreatedAt = zeroTime, Data = ''{''\<rparr>]
    = Inl (Wrapf (Failure ''unexpected end of JSON input'')
             ''Fail to unmarshal report content: %v %s''
             [ArgRecord \<lparr>recordBase.PKey = ''content/R1'', recordBase.SKey = ''h/u1'',
                          recordBase.ExpiresAt = zeroTime, recordBase.CreatedAt = zeroTime, Data = ''{''\<rparr>,
              ArgS ''{''])
   \<and> FetchAlertCache
     (\<lambda>raw. if raw = ''{'' then Inl (Failure ''unexpected end of JSON input'')
            else Inr \<lparr>AlertID = ''id'', Alert.Timestamp = zeroTime, Body = raw\<rparr>) ''u'' None ''R2''
     [AlertCacheItem \<lparr>alertCache.PKey = ''alert/R1'', alertCache.SKey = ''cache/u1'',
                       AlertData = ''a'', alertCache.ExpiresAt = zeroTime\<rparr>,
      AlertCacheItem \<lparr>alertCache.PKey = ''alert/R1'', alertCache.SKey = ''cache/u2'',
                       AlertData = ''{'', alertCache.ExpiresAt = zeroTime\<rparr>,
      ReportSectionItem \<lparr>recordBase.PKey = ''content/R1'', recordBase.SKey = ''h/u1'',
                          recordBase.ExpiresAt = zeroTime, recordBase.CreatedAt = zeroTime, Data = ''{''\<rparr>]
    = Inr []
   \<and> FetchReportSection
     (\<lambda>raw. if raw = ''{'' then Inl (Failure ''unexpected end of JSON input'')
            else Inr raw) ''u'' None ''R2''
     [AlertCacheItem \<lparr>alertCache.PKey = ''alert/R1'', alertCache.SKey = ''cache/u1'',
                       AlertData = ''a'', alertCache.ExpiresAt = zeroTime\<rparr>,
      AlertCacheItem \<lparr>alertCache.PKey = ''alert/R1'', alertCache.SKey = ''cache/u2'',
                       AlertData = ''{'', alertCache.ExpiresAt = zeroTime\<rparr>,
      ReportSectionItem \<lparr>recordBase.PKey = ''content/R1'', recordBase.SKey = ''h/u1'',
                          recordBase.ExpiresAt = zeroTime, recordBase.CreatedAt = zeroTime, Data = ''{''\<rparr>]
    = Inr []"
proof -
  let ?UA = "\<lambda>raw. if raw = ''{'' then Inl (Failure ''unexpected end of JSON input'')
            else Inr \<lparr>AlertID = ''id'', Alert.Timestamp = zeroTime, Body = raw\<rparr>
              :: error + Alert"
  let ?US = "\<lambda>raw. if raw = ''{'' then Inl (Failure ''unexpected end of JSON input'')
            else Inr raw :: error + string"
  let ?c1 = "\<lparr>alertCache.PKey = ''alert/R1'', alertCache.SKey = ''cache/u1'',
                       AlertData = ''a'', alertCache.ExpiresAt = zeroTime\<rparr>"
  let ?c2 = "\<lparr>alertCache.PKey = ''alert/R1'', alertCache.SKey = ''cache/u2'',
                       AlertData = ''{'', alertCache.ExpiresAt = zeroTime\<rparr>"
  let ?r1 = "\<lparr>recordBase.PKey = ''content/R1'', recordBase.SKey = ''h/u1'',
                          recordBase.ExpiresAt = zeroTime, recordBase.CreatedAt = zeroTime,
                          Data = ''{''\<rparr>"
  let ?t = "[AlertCacheItem ?c1, AlertCacheItem ?c2, ReportSectionItem ?r1]"
  have a1: "table_all (''alert/'' @ ''R1'') ?t = [AlertCacheItem ?c1, AlertCacheItem ?c2]"
    by code_simp
  have s1: "table_all (''content/'' @ ''R1'') ?t = [ReportSectionItem ?r1]"
    by code_simp
  have a2: "table_all (''alert/'' @ ''R2'') ?t = []"
    by code_simp
  have s2: "table_all (''content/'' @ ''R2'') ?t = []"
    by code_simp
  have r1: "FetchAlertCache ?UA ''u'' None ''R1'' ?t
              = Inl (Wrapf (Failure ''unexpected end of JSON input'')
                       ''Fail to unmarshal alert: %s'' [ArgS ''{''])
          \<and> FetchReportSection ?US ''u'' None ''R1'' ?t
              = Inl (Wrapf (Failure ''unexpected end of JSON input'')
                   ''Fail to unmarshal report content: %v %s''
                   [ArgRecord ?r1, ArgS ''{''])"
    using Fetch_all_or_nothing [where reportID = "''R1''" and t = ?t and UnmarshalAlert = ?UA
        and UnmarshalSection = ?US and uuid = "''u''" and getFault = None and xs = "[]"
        and ys = "[]"] a1 s1
    by (simp add: as_alertCache_def as_reportSectionRecord_def)
  have r2: "FetchAlertCache ?UA ''u'' None ''R2'' ?t = Inr []
          \<and> FetchReportSection ?US ''u'' None ''R2'' ?t = Inr []"
    using Fetch_all_or_nothing [where reportID = "''R2''" and t = ?t and UnmarshalAlert = ?UA
        and UnmarshalSection = ?US and uuid = "''u''" and getFault = None and xs = "[]"
        and ys = "[]"] a2 s2
    by simp
  from r1 r2 show ?thesis
    by (intro conjI) simp_all
qed

section \<open>Properties of SFnService.Exec\<close>

lemma Split_not_Nil: "Split s sep \<noteq> []"
  by (induction s) (auto split: list.splits)

lemma length_Split: "length (Split s sep) = Suc (count_list s sep)"
  by (induction s) (auto split: list.splits simp: Split_not_Nil)

text \<open>
  C9. \<^verbatim>\<open>Exec\<close> rejects a malformed ARN before it calls out: when the ARN does not split
  at its colons into exactly seven parts, \<^verbatim>\<open>Exec\<close> returns an error and no call of
  \<^verbatim>\<open>StartExecution\<close> is made. When the ARN has seven parts, every call that is made goes
  to the region that is the fourth part, with the ARN as it was given; and there is such a
  call as soon as the data is encoded and the session is made.
\<close>

theorem Exec_rejects_malformed_arn:
  "(length (Split arn CHR '':'') \<noteq> 7 \<longrightarrow>
      (\<exists>e. fst (Exec Marshal sessionFault sfnFault arn data) = Return (Some e))
      \<and> snd (Exec Marshal sessionFault sfnFault arn data) = [])
   \<and> (length (Split arn CHR '':'') = 7 \<longrightarrow>
      (\<forall>c \<in> set (snd (Exec Marshal sessionFault sfnFault arn data)).
         Region c = Split arn CHR '':'' ! 3 \<and> StateMachineArn c = arn))
   \<and> (length (Split arn CHR '':'') = 7 \<and> Marshal data = Inr raw \<and> sessionFault = None \<longrightarrow>
      snd (Exec Marshal sessionFault sfnFault arn data) =
        [\<lparr>Region = Split arn CHR '':'' ! 3, Input = raw, StateMachineArn = arn\<rparr>])"
  by (cases "Marshal data"; cases sessionFault; cases sfnFault)
     (simp_all add: Exec_def extractSFnRegion_def Let_def)

theorem Exec_rejects_malformed_arn_witness:
  "Exec (\<lambda>d. Inr d) None None ''arn:aws:states'' ''{}''
     = (Return (Some (With (New ''Invalid state machine ARN'') ''ARN'' ''arn:aws:states'')), [])
   \<and> Exec (\<lambda>d. Inr d) None None
        ''arn:aws:states:us-east-1:111122223333:stateMachine:machine-name'' ''{}''
     = (Return None,
        [\<lparr>Region = ''us-east-1'', Input = ''{}'',
          StateMachineArn = ''arn:aws:states:us-east-1:111122223333:stateMachine:machine-name''\<rparr>])"
proof -
  let ?M = "\<lambda>d. Inr d :: error + string"
  have bad: "Exec ?M None None ''arn:aws:states'' ''{}''
     = (Return (Some (With (New ''Invalid state machine ARN'') ''ARN'' ''arn:aws:states'')), [])"
    using Exec_rejects_malformed_arn [of "''arn:aws:states''" ?M None None "''{}''" "''{}''"]
    by (simp add: Exec_def extractSFnRegion_def)
  have good: "Exec ?M None None
        ''arn:aws:states:us-east-1:111122223333:stateMachine:machine-name'' ''{}''
     = (Return None,
        [\<lparr>Region = ''us-east-1'', Input = ''{}'',
          StateMachineArn = ''arn:aws:states:us-east-1:111122223333:stateMachine:machine-name''\<rparr>])"
    using Exec_rejects_malformed_arn
      [of "''arn:aws:states:us-east-1:111122223333:stateMachine:machine-name''" ?M None None
          "''{}''" "''{}''"]
    by (simp add: Exec_def extractSFnRegion_def)
  from bad good show ?thesis
    by (intro conjI)
qed

section \<open>One entry for each alert identity\<close>

lemma keys_table_put:
  "map key_of (table_put v t) =
     (if key_of v \<in> set (map key_of t) then map key_of t else map key_of t @ [key_of v])"
  by (induction t) auto

lemma wf_table_put: "wf_table t \<Longrightarrow> wf_table (table_put v t)"
  by (simp add: wf_table_def keys_table_put)

lemma set_table_put: "set (table_put v t) \<subseteq> insert v (set t)"
  by (induction t) auto

lemma alertmap_fixed_put:
  assumes "alertmap_fixed t" and "\<not> is_alertmap (item_pk v) \<or> item_sk v = ''Fixed''"
  shows "alertmap_fixed (table_put v t)"
  using assms set_table_put [of v t]
  unfolding alertmap_fixed_def list_all_iff by blast

lemma distinct_all_equal: "distinct xs \<Longrightarrow> \<forall>x \<in> set xs. x = a \<Longrightarrow> length xs \<le> 1"
  by (cases xs; cases "tl xs") auto

lemma one_entry_per_partition:
  assumes "wf_table t" and "alertmap_fixed t"
  shows "length (table_all (''alertmap/'' @ alertID) t) \<le> 1"
proof -
  let ?pk = "''alertmap/'' @ alertID"
  let ?ws = "filter (\<lambda>w. item_pk w = ?pk) t"
  have "distinct (map key_of ?ws)"
    using assms(1) by (simp add: wf_table_def distinct_map_filter)
  moreover have "\<forall>k \<in> set (map key_of ?ws). k = (?pk, ''Fixed'')"
    using assms(2)
    by (auto simp: alertmap_fixed_def list_all_iff key_of_def is_alertmap_def)
  ultimately have "length (map key_of ?ws) \<le> 1"
    by (rule distinct_all_equal)
  then show ?thesis by (simp add: length_table_all)
qed

lemma TakeReport_table:
  "snd (TakeReport now newID putFault getFault alert t) =
     (if putFault = None \<and>
         cond_not_exists_or_expired
           (table_get (''alertmap/'' @ AlertID alert) ''Fixed'' t) (Alert.Timestamp alert)
      then table_put (AlertEntryItem
          \<lparr>recordBase.PKey = ''alertmap/'' @ AlertID alert, recordBase.SKey = ''Fixed'',
           recordBase.ExpiresAt = Add (Alert.Timestamp alert) (Hour * 3),
           recordBase.CreatedAt = now, ReportID = newID\<rparr>) t
      else t)"
  by (cases putFault; cases getFault)
     (auto simp: TakeReport_def Put_If_def Get_One_def Let_def split: option.splits sum.splits)

lemma TakeReport_invariant:
  assumes "wf_table t" and "alertmap_fixed t"
  shows "wf_table (snd (TakeReport now newID putFault getFault alert t))
       \<and> alertmap_fixed (snd (TakeReport now newID putFault getFault alert t))"
  using assms by (simp add: TakeReport_table wf_table_put alertmap_fixed_put)

lemma TakeReports_invariant:
  assumes "wf_table t" and "alertmap_fixed t"
  shows "wf_table (TakeReports cs t) \<and> alertmap_fixed (TakeReports cs t)"
  using assms
proof (induction cs arbitrary: t)
  case Nil
  then show ?case by simp
next
  case (Cons c cs)
  from TakeReport_invariant [OF Cons.prems]
  have "wf_table (snd (TakeReport (call_now c) (call_newID c) (call_putFault c)
                         (call_getFault c) (call_alert c) t))"
    and "alertmap_fixed (snd (TakeReport (call_now c) (call_newID c) (call_putFault c)
                         (call_getFault c) (call_alert c) t))"
    by blast+
  from Cons.IH [OF this] show ?case by simp
qed

text \<open>
  What holds of the claim C4: on a table with one item for each key, where the partitions
  \<^verbatim>\<open>alertmap/...\<close> hold only items with the sort key \<^verbatim>\<open>Fixed\<close>, the partition of an alert
  identity holds at most one entry after every sequence of calls of \<^verbatim>\<open>TakeReport\<close>.
\<close>

lemma TakeReports_one_entry:
  assumes "wf_table t" and "alertmap_fixed t"
  shows "length (table_all (''alertmap/'' @ alertID) (TakeReports cs t)) \<le> 1"
proof -
  from TakeReports_invariant [OF assms]
  have "wf_table (TakeReports cs t)" and "alertmap_fixed (TakeReports cs t)"
    by blast+
  then show ?thesis
    by (rule one_entry_per_partition)
qed

text \<open>
  C4. The claim fails on the code: a live entry is overwritten. The table compares the
  texts of the stored expiry and of the event timestamp, not the instants. The entry of an
  alert of 10:00 UTC expires at 13:00 UTC, text \<^verbatim>\<open>1970-01-01T13:00:00Z\<close>. A second alert of
  the same identity with the event timestamp 20:00 in the zone \<^verbatim>\<open>+09:00\<close>, two hours before
  this expiry, has the text \<^verbatim>\<open>1970-01-01T20:00:00+09:00\<close>, which the bytes order after the
  expiry: the write is accepted, the call returns \<^verbatim>\<open>NEW\<close> with a second identity, and the
  entry of the first alert is replaced while it is live.
\<close>

theorem TakeReport_overwrites_live_entry:
  "TakeReport \<lparr>unixNano = 10 * Hour, zoneOffset = 0\<rparr> ''R1'' None None
       \<lparr>AlertID = ''host-7:ruleA'',
        Alert.Timestamp = \<lparr>unixNano = 10 * Hour, zoneOffset = 0\<rparr>, Body = []\<rparr> []
     = (Inr \<lparr>ID = ''R1'', Status = StatusNew,
             Report.CreatedAt = \<lparr>unixNano = 10 * Hour, zoneOffset = 0\<rparr>\<rparr>,
        [AlertEntryItem
          \<lparr>recordBase.PKey = ''alertmap/host-7:ruleA'', recordBase.SKey = ''Fixed'',
           recordBase.ExpiresAt = \<lparr>unixNano = 13 * Hour, zoneOffset = 0\<rparr>,
           recordBase.CreatedAt = \<lparr>unixNano = 10 * Hour, zoneOffset = 0\<rparr>,
           ReportID = ''R1''\<rparr>])
   \<and> MarshalText \<lparr>unixNano = 13 * Hour, zoneOffset = 0\<rparr> = ''1970-01-01T13:00:00Z''
   \<and> MarshalText \<lparr>unixNano = 11 * Hour, zoneOffset = 32400\<rparr> = ''1970-01-01T20:00:00+09:00''
   \<and> unixNano \<lparr>unixNano = 11 * Hour, zoneOffset = 32400\<rparr> + 2 * Hour
       = unixNano \<lparr>unixNano = 13 * Hour, zoneOffset = 0\<rparr>
   \<and> TakeReport \<lparr>unixNano = 11 * Hour + 1, zoneOffset = 0\<rparr> ''R2'' None None
       \<lparr>AlertID = ''host-7:ruleA'',
        Alert.Timestamp = \<lparr>unixNano = 11 * Hour, zoneOffset = 32400\<rparr>, Body = []\<rparr>
       [AlertEntryItem
          \<lparr>recordBase.PKey = ''alertmap/host-7:ruleA'', recordBase.SKey = ''Fixed'',
           recordBase.ExpiresAt = \<lparr>unixNano = 13 * Hour, zoneOffset = 0\<rparr>,
           recordBase.CreatedAt = \<lparr>unixNano = 10 * Hour, zoneOffset = 0\<rparr>,
           ReportID = ''R1''\<rparr>]
     = (Inr \<lparr>ID = ''R2'', Status = StatusNew,
             Report.CreatedAt = \<lparr>unixNano = 11 * Hour + 1, zoneOffset = 0\<rparr>\<rparr>,
        [AlertEntryItem
          \<lparr>recordBase.PKey = ''alertmap/host-7:ruleA'', recordBase.SKey = ''Fixed'',
           recordBase.ExpiresAt = \<lparr>unixNano = 14 * Hour, zoneOffset = 32400\<rparr>,
           recordBase.CreatedAt = \<lparr>unixNano = 11 * Hour + 1, zoneOffset = 0\<rparr>,
           ReportID = ''R2''\<rparr>])"
  by code_simp

section \<open>Concurrent calls\<close>

text \<open>
  Every call returns once the table has served it twice, and a call that runs alone is
  \<^verbatim>\<open>TakeReport\<close>.
\<close>

lemma step_progress:
  "TakeReport_step c pc t = (pc', t') \<Longrightarrow>
     (pc = Idle \<longrightarrow> pc' = Rejected \<or> (\<exists>r. pc' = Done r))
   \<and> (pc = Rejected \<longrightarrow> (\<exists>r. pc' = Done r))
   \<and> (\<forall>r. pc = Done r \<longrightarrow> pc' = Done r)"
  by (cases pc)
     (auto simp: TakeReport_step_def Put_If_def Get_One_def Let_def
        split: option.splits sum.splits if_splits)

lemma run_schedule_returns:
  assumes "run_schedule cs sched (pcs, t) = (pcs', t')"
    and "i < length cs" and "length pcs = length cs"
    and "(\<exists>r. pcs ! i = Done r) \<or> (pcs ! i = Rejected \<and> 1 \<le> count_list sched i)
         \<or> 2 \<le> count_list sched i"
  shows "\<exists>r. pcs' ! i = Done r"
  using assms
proof (induction sched arbitrary: pcs t)
  case Nil
  then show ?case by auto
next
  case (Cons j sched)
  show ?case
  proof (cases "j < length pcs \<and> j < length cs")
    case True
    obtain pc1 t1 where step: "TakeReport_step (cs ! j) (pcs ! j) t = (pc1, t1)"
      by (cases "TakeReport_step (cs ! j) (pcs ! j) t")
    with Cons.prems(1) True have run: "run_schedule cs sched (pcs[j := pc1], t1) = (pcs', t')"
      by simp
    have len: "length (pcs[j := pc1]) = length cs"
      using Cons.prems(3) by simp
    have "(\<exists>r. pcs[j := pc1] ! i = Done r)
          \<or> (pcs[j := pc1] ! i = Rejected \<and> 1 \<le> count_list sched i)
          \<or> 2 \<le> count_list sched i"
    proof (cases "j = i")
      case True
      note prog = step_progress [OF step]
      have at: "pcs[j := pc1] ! i = pc1"
        using True Cons.prems(2,3) by simp
      from Cons.prems(4) True
      have "(\<exists>r. pcs ! j = Done r) \<or> (pcs ! j = Rejected) \<or> 1 \<le> count_list sched i"
        by auto
      then show ?thesis
      proof (elim disjE)
        assume "\<exists>r. pcs ! j = Done r"
        with prog at show ?thesis by auto
      next
        assume "pcs ! j = Rejected"
        with prog at show ?thesis by auto
      next
        assume c: "1 \<le> count_list sched i"
        show ?thesis
        proof (cases "pcs ! j")
          case Idle
          with prog at c show ?thesis by auto
        next
          case Rejected
          with prog at show ?thesis by auto
        next
          case (Done r)
          with prog at show ?thesis by auto
        qed
      qed
    next
      case False
      with Cons.prems(4) show ?thesis by auto
    qed
    from Cons.IH [OF run Cons.prems(2) len this] show ?thesis .
  next
    case False
    with Cons.prems(2,3) have ji: "j \<noteq> i" by auto
    from False Cons.prems(1) have run: "run_schedule cs sched (pcs, t) = (pcs', t')"
      by auto
    from Cons.prems(4) ji
    have "(\<exists>r. pcs ! i = Done r) \<or> (pcs ! i = Rejected \<and> 1 \<le> count_list sched i)
         \<or> 2 \<le> count_list sched i"
      by auto
    from Cons.IH [OF run Cons.prems(2,3) this] show ?thesis .
  qed
qed

lemma run_schedule_alone:
  "run_schedule [c] [0, 0] ([Idle], t) =
     ([Done (fst (TakeReport (call_now c) (call_newID c) (call_putFault c) (call_getFault c)
                    (call_alert c) t))],
      snd (TakeReport (call_now c) (call_newID c) (call_putFault c) (call_getFault c)
             (call_alert c) t))"
  by (cases "call_putFault c"; cases "call_getFault c")
     (auto simp: TakeReport_def TakeReport_step_def Put_If_def Get_One_def Let_def
        split: option.splits sum.splits)

text \<open>
  C1. The claim fails on the code: two calls whose event timestamps lie in one window
  both return \<^verbatim>\<open>NEW\<close>. The table compares the texts of the stored expiry and of the event
  timestamp, not the instants. The call for the alert of 0.5 seconds past 10:00 UTC is
  served first and stores the expiry 0.5 seconds past 13:00, text
  \<^verbatim>\<open>1970-01-01T13:00:00.5Z\<close>. The call for the alert of 13:00 UTC, inside this window, has the
  text \<^verbatim>\<open>1970-01-01T13:00:00Z\<close>, which the bytes order after the expiry (the point comes
  before the letter \<^verbatim>\<open>Z\<close>): its write is accepted as well, and the two calls return two
  identities. In the same way two calls of \<^verbatim>\<open>PutAttributeCache\<close> for one report and one
  attribute, the second ten milliseconds before the expiry that the first has stored, both
  return \<^verbatim>\<open>true\<close>.
\<close>

theorem concurrent_calls_two_winners:
  "MarshalText (Add \<lparr>unixNano = 10 * Hour + 500000000, zoneOffset = 0\<rparr> (Hour * 3))
     = ''1970-01-01T13:00:00.5Z''
   \<and> MarshalText \<lparr>unixNano = 13 * Hour, zoneOffset = 0\<rparr> = ''1970-01-01T13:00:00Z''
   \<and> unixNano \<lparr>unixNano = 13 * Hour, zoneOffset = 0\<rparr>
       \<le> unixNano (Add \<lparr>unixNano = 10 * Hour + 500000000, zoneOffset = 0\<rparr> (Hour * 3))
   \<and> unixNano \<lparr>unixNano = 10 * Hour + 500000000, zoneOffset = 0\<rparr>
       \<le> unixNano (Add \<lparr>unixNano = 13 * Hour, zoneOffset = 0\<rparr> (Hour * 3))
   \<and> fst (run_schedule
         [\<lparr>call_now = \<lparr>unixNano = 13 * Hour + 1, zoneOffset = 0\<rparr>, call_newID = ''R1'',
           call_putFault = None, call_getFault = None,
           call_alert = \<lparr>AlertID = ''host-7:ruleA'',
             Alert.Timestamp = \<lparr>unixNano = 10 * Hour + 500000000, zoneOffset = 0\<rparr>,
             Body = []\<rparr>\<rparr>,
          \<lparr>call_now = \<lparr>unixNano = 13 * Hour + 2, zoneOffset = 0\<rparr>, call_newID = ''R2'',
           call_putFault = None, call_getFault = None,
           call_alert = \<lparr>AlertID = ''host-7:ruleA'',
             Alert.Timestamp = \<lparr>unixNano = 13 * Hour, zoneOffset = 0\<rparr>, Body = []\<rparr>\<rparr>]
         [0, 1, 0, 1] ([Idle, Idle], []))
     = [Done (Inr \<lparr>ID = ''R1'', Status = StatusNew,
                    Report.CreatedAt = \<lparr>unixNano = 13 * Hour + 1, zoneOffset = 0\<rparr>\<rparr>),
        Done (Inr \<lparr>ID = ''R2'', Status = StatusNew,
                    Report.CreatedAt = \<lparr>unixNano = 13 * Hour + 2, zoneOffset = 0\<rparr>\<rparr>)]
   \<and> MarshalText (Add \<lparr>unixNano = 510000000, zoneOffset = 0\<rparr> (Hour * 3))
       = ''1970-01-01T03:00:00.51Z''
   \<and> MarshalText \<lparr>unixNano = 3 * Hour + 500000000, zoneOffset = 0\<rparr>
       = ''1970-01-01T03:00:00.5Z''
   \<and> unixNano \<lparr>unixNano = 3 * Hour + 500000000, zoneOffset = 0\<rparr>
       \<le> unixNano (Add \<lparr>unixNano = 510000000, zoneOffset = 0\<rparr> (Hour * 3))
   \<and> fst (PutAttributeCaches (\<lambda>k ty v. k @ ''|'' @ ty @ ''|'' @ v) ''R1''
        [(\<lparr>unixNano = 510000000, zoneOffset = 0\<rparr>, None,
          \<lparr>Type = ''ipv4'', Key = ''ip'', Value = ''1.2.3.4'', Attribute.Timestamp = None\<rparr>),
         (\<lparr>unixNano = 3 * Hour + 500000000, zoneOffset = 0\<rparr>, None,
          \<lparr>Type = ''ipv4'', Key = ''ip'', Value = ''1.2.3.4'', Attribute.Timestamp = None\<rparr>)]
        [])
     = [(True, None), (True, None)]"
  by code_simp

section \<open>The in-memory repository compares the seconds\<close>

text \<open>
  The conditional write of the in-memory repository is rejected exactly when an alert
  entry is stored under the key whose expiry, in seconds, is at or after the seconds of the
  timestamp of the write. A write that is rejected changes nothing, and a write that is
  accepted can be read back. At the timestamps where the table above replaces a live
  entry, the repository keeps it.
\<close>

lemma mock_get_put_same: "mock_get pk sk (mock_put pk sk v data) = Some v"
  by (simp add: mock_get_def mock_put_def)

lemma mock_PutAlertEntry_rejected_iff:
  "fst (mock_PutAlertEntry entry ts data) = Some errCondition \<longleftrightarrow>
     (\<exists>e. mock_get (recordBase.PKey entry) (recordBase.SKey entry) data = Some (AlertEntryItem e)
          \<and> Unix ts \<le> Unix (recordBase.ExpiresAt e))"
  by (auto simp: mock_PutAlertEntry_def Let_def split: option.splits item.splits)

lemma mock_PutAlertEntry_effect:
  "mock_PutAlertEntry entry ts data = (Some errCondition, data)
   \<or> mock_PutAlertEntry entry ts data =
       (None, mock_put (recordBase.PKey entry) (recordBase.SKey entry) (AlertEntryItem entry) data)"
  by (simp add: mock_PutAlertEntry_def Let_def)

lemma mock_GetAlertEntry_after_put:
  "fst (mock_PutAlertEntry entry ts data) = None \<Longrightarrow>
     mock_GetAlertEntry (recordBase.PKey entry) (recordBase.SKey entry)
       (snd (mock_PutAlertEntry entry ts data)) = Some entry"
  by (auto simp: mock_PutAlertEntry_def mock_GetAlertEntry_def mock_get_put_same Let_def
      split: if_splits)

lemma mock_PutAttributeCache_rejected_iff:
  "fst (mock_PutAttributeCache attr ts data) = Some errCondition \<longleftrightarrow>
     (\<exists>e. mock_get (recordBase.PKey attr) (recordBase.SKey attr) data
            = Some (AttributeCacheItem e)
          \<and> Unix ts \<le> Unix (recordBase.ExpiresAt e))"
  by (auto simp: mock_PutAttributeCache_def Let_def split: option.splits item.splits)

lemma mock_IsConditionalCheckErr_rejected:
  "fst (mock_PutAlertEntry entry ts data) = Some err \<Longrightarrow> mock_IsConditionalCheckErr err"
  by (auto simp: mock_PutAlertEntry_def mock_IsConditionalCheckErr_def Let_def split: if_splits)

lemma mock_PutAlertEntry_keeps_live_entry:
  "fst (mock_PutAlertEntry
          \<lparr>recordBase.PKey = ''alertmap/host-7:ruleA'', recordBase.SKey = ''Fixed'',
           recordBase.ExpiresAt = \<lparr>unixNano = 14 * Hour, zoneOffset = 32400\<rparr>,
           recordBase.CreatedAt = \<lparr>unixNano = 11 * Hour + 1, zoneOffset = 0\<rparr>,
           ReportID = ''R2''\<rparr>
          \<lparr>unixNano = 11 * Hour, zoneOffset = 32400\<rparr>
          (mock_put ''alertmap/host-7:ruleA'' ''Fixed''
             (AlertEntryItem
                \<lparr>recordBase.PKey = ''alertmap/host-7:ruleA'', recordBase.SKey = ''Fixed'',
                 recordBase.ExpiresAt = \<lparr>unixNano = 13 * Hour, zoneOffset = 0\<rparr>,
                 recordBase.CreatedAt = \<lparr>unixNano = 10 * Hour, zoneOffset = 0\<rparr>,
                 ReportID = ''R1''\<rparr>)
             Map.empty))
     = Some errCondition"
  by (simp add: mock_PutAlertEntry_def mock_get_put_same Unix_def Hour_def)

end
